theory Spec2Isabelle
  imports Main
begin

section \<open>The realtime subscription manager of src/hooks/useSupabaseSubscription.ts\<close>

text \<open>
  The hook keeps two pieces of React state (\<open>retryCount\<close>, \<open>isConnected\<close>) and three
  refs (\<open>channelRef\<close>, \<open>timeoutRef\<close>, \<open>heartbeatIntervalRef\<close>). Everything it does
  beyond that is an effect on a collaborator: the window's timers, the supabase client's
  channels, the toast library and the console. The model is explicit state passing over
  one record that holds the hook's own state together with the state of those
  collaborators, so that "a timer is pending" and "a channel is registered" are facts
  about the record.

  The callbacks of the hook are closures. \<open>handleReconnection\<close> is memoised with the
  dependencies \<open>[sessionId, retryCount]\<close>, so its body reads the \<open>sessionId\<close> and the
  \<open>retryCount\<close> of the render that created it, while \<open>setRetryCount\<close> writes the
  React state. The model keeps the two apart: the captured values are arguments
  (\<open>sessionId\<close>, \<open>rc\<close>) of every function that closes over them, the React state is the
  field \<open>retryCount\<close> of the record. \<open>setupSubscription\<close> closes over
  \<open>handleReconnection\<close>, the listeners it registers on a channel close over both, and
  the function \<open>handleReconnection\<close> gives to \<open>setTimeout\<close> calls the
  \<open>setupSubscription\<close> of the same render: so a channel and a timer carry the captured
  values with them.
\<close>

subsection \<open>Constants (lines 6-8)\<close>

definition INITIAL_RETRY_DELAY :: nat where
  "INITIAL_RETRY_DELAY = 1000"

definition MAX_RETRY_DELAY :: nat where
  "MAX_RETRY_DELAY = 30000"

definition MAX_RETRY_ATTEMPTS :: nat where
  "MAX_RETRY_ATTEMPTS = 5"

subsection \<open>Data\<close>

text \<open>Console output: the level and the arguments; an object argument is opaque.\<close>

datatype piece = Txt string | Num nat | Obj

datatype level = Log | Warn | Err

type_synonym entry = "level \<times> piece list"

text \<open>A toast of the sonner library: its kind, its message and its description.\<close>

datatype toast = ToastError string "string option" | ToastSuccess string "string option"

text \<open>The statuses the transport hands to the callback of \<open>subscribe\<close>, and the
  strings they are.\<close>

datatype status = SUBSCRIBED | TIMED_OUT | CLOSED | CHANNEL_ERROR

fun statusName :: "status \<Rightarrow> string" where
  "statusName SUBSCRIBED = ''SUBSCRIBED''"
| "statusName TIMED_OUT = ''TIMED_OUT''"
| "statusName CLOSED = ''CLOSED''"
| "statusName CHANNEL_ERROR = ''CHANNEL_ERROR''"

text \<open>
  A channel object of the supabase client: \<open>chanId\<close> is its identity as an object,
  \<open>topic\<close> the name given to \<open>supabase.channel\<close>, \<open>insertFilter\<close> the filter of its
  \<open>postgres_changes\<close> listener. The listeners registered on it (lines 92-129) are
  closures: \<open>heldSession\<close> and \<open>heldRetry\<close> are the \<open>sessionId\<close> and the
  \<open>retryCount\<close> they captured.
\<close>

record channel =
  chanId :: nat
  topic :: string
  insertFilter :: string
  heldSession :: "string option"
  heldRetry :: nat

text \<open>
  The two functions the hook hands to the window's timers, each with what it captured:
  the arrow function of line 39 (given to \<open>setTimeout\<close>) with the session identifier
  and the retry counter of its render, and the one of line 53 (given to
  \<open>setInterval\<close>) with the channel it probes.
\<close>

datatype callback =
    ReconnectFire string nat
  | HeartbeatTick channel

record timer =
  tid :: nat
  repeating :: bool
  ms :: nat
  cb :: callback

record manager =
  retryCount :: nat
  isConnected :: bool
  channelRef :: "channel option"
  timeoutRef :: "nat option"
  heartbeatIntervalRef :: "nat option"
  channels :: "channel list"
  timers :: "timer list"
  nextTimerId :: nat
  nextChannelId :: nat
  heartbeats :: "channel list"
  toasts :: "toast list"
  console :: "entry list"

text \<open>The hook at its first render, before any call: no channel, no timer, ids unused.\<close>

definition init :: manager where
  "init = \<lparr>retryCount = 0, isConnected = False, channelRef = None, timeoutRef = None,
     heartbeatIntervalRef = None, channels = [], timers = [], nextTimerId = 1,
     nextChannelId = 1, heartbeats = [], toasts = [], console = []\<rparr>"

subsection \<open>JavaScript truthiness of the tested values\<close>

text \<open>A number ref is truthy when it is defined and not 0; a string when it is not
  null and not empty.\<close>

definition truthy_num :: "nat option \<Rightarrow> bool" where
  "truthy_num r = (case r of None \<Rightarrow> False | Some n \<Rightarrow> 0 < n)"

definition truthy_str :: "string option \<Rightarrow> bool" where
  "truthy_str r = (case r of None \<Rightarrow> False | Some x \<Rightarrow> x \<noteq> [])"

subsection \<open>The collaborators: window timers, supabase client, toast, console\<close>

text \<open>
  \<open>setTimeout\<close> and \<open>setInterval\<close> draw their ids from one counter of the window, all
  greater than zero; \<open>clearTimeout\<close> and \<open>clearInterval\<close> both cancel the timer of
  the given id, of either kind, and do nothing when there is none. The two operations of
  the supabase client, \<open>removeChannel\<close> and the opening of a channel, call back into
  the hook and stand after the listeners below.
\<close>

definition clearTimer :: "nat \<Rightarrow> manager \<Rightarrow> manager" where
  "clearTimer i s = s\<lparr>timers := filter (\<lambda>t. tid t \<noteq> i) (timers s)\<rparr>"

definition setTimeout :: "callback \<Rightarrow> nat \<Rightarrow> manager \<Rightarrow> nat \<times> manager" where
  "setTimeout f d s =
     (nextTimerId s,
      s\<lparr>timers := timers s @ [\<lparr>tid = nextTimerId s, repeating = False, ms = d, cb = f\<rparr>],
        nextTimerId := Suc (nextTimerId s)\<rparr>)"

definition setInterval :: "callback \<Rightarrow> nat \<Rightarrow> manager \<Rightarrow> nat \<times> manager" where
  "setInterval f d s =
     (nextTimerId s,
      s\<lparr>timers := timers s @ [\<lparr>tid = nextTimerId s, repeating = True, ms = d, cb = f\<rparr>],
        nextTimerId := Suc (nextTimerId s)\<rparr>)"

definition emit :: "level \<Rightarrow> piece list \<Rightarrow> manager \<Rightarrow> manager" where
  "emit l ps s = s\<lparr>console := console s @ [(l, ps)]\<rparr>"

definition toast :: "toast \<Rightarrow> manager \<Rightarrow> manager" where
  "toast t s = s\<lparr>toasts := toasts s @ [t]\<rparr>"

subsection \<open>The functions of the hook\<close>

text \<open>Lines 17-22.\<close>

definition clearHeartbeat :: "manager \<Rightarrow> manager" where
  "clearHeartbeat s =
     (if truthy_num (heartbeatIntervalRef s)
      then (clearTimer (the (heartbeatIntervalRef s)) s)\<lparr>heartbeatIntervalRef := None\<rparr>
      else s)"

text \<open>Lines 24-48. \<open>sessionId\<close> and \<open>rc\<close> are the \<open>sessionId\<close> and \<open>retryCount\<close>
  the closure captured. Past the guard \<open>sessionId\<close> is a non-empty string. The function
  given to \<open>setTimeout\<close> is \<open>reconnectFire\<close> below.\<close>

definition handleReconnection :: "string option \<Rightarrow> nat \<Rightarrow> manager \<Rightarrow> manager" where
  "handleReconnection sessionId rc s =
     (if \<not> truthy_str sessionId \<or> MAX_RETRY_ATTEMPTS \<le> rc
      then toast (ToastError ''Unable to maintain connection. Please refresh the page.'' None)
             (emit Err [Txt ''Max retry attempts reached or no session ID''] s)
      else
        let delay = min (INITIAL_RETRY_DELAY * 2 ^ rc) MAX_RETRY_DELAY;
            s1 = emit Log [Txt ''Attempting reconnection in '', Num delay,
                           Txt ''ms (attempt '', Num (rc + 1), Txt '')''] s;
            s2 = (if truthy_num (timeoutRef s1) then clearTimer (the (timeoutRef s1)) s1 else s1);
            (i, s3) = setTimeout (ReconnectFire (the sessionId) rc) delay s2
        in s3\<lparr>timeoutRef := Some i\<rparr>)"

text \<open>Lines 50-53 and 69: the heartbeat of a channel, every 30 seconds. The body of the
  interval's function is \<open>heartbeatTick\<close> below, the \<open>catch\<close> of its send is
  \<open>heartbeatFailed\<close>.\<close>

definition startHeartbeat :: "channel \<Rightarrow> manager \<Rightarrow> manager" where
  "startHeartbeat ch s =
     (let (i, s1) = setInterval (HeartbeatTick ch) 30000 (clearHeartbeat s)
      in s1\<lparr>heartbeatIntervalRef := Some i\<rparr>)"

text \<open>Lines 92-99: the listener of insert events; \<open>role\<close> is \<open>payload.new.role\<close>.\<close>

definition onInsert :: "string \<Rightarrow> manager \<Rightarrow> manager" where
  "onInsert role s =
     (let s1 = emit Log [Txt ''Real-time message received:'', Obj] s
      in if role \<notin> set [''user'', ''assistant'', ''owner'']
         then emit Warn [Txt ''Invalid role in payload: '', Txt role] s1
         else s1)"

text \<open>Lines 101-108: the listener of the transport's error events.\<close>

definition onSystemError :: "string option \<Rightarrow> nat \<Rightarrow> manager \<Rightarrow> manager" where
  "onSystemError sessionId rc s =
     handleReconnection sessionId rc
       (toast (ToastError ''Connection lost. Attempting to reconnect...''
                 (Some ''Please wait while we restore your connection.''))
          ((emit Err [Txt ''Subscription error:'', Obj] s)\<lparr>isConnected := False\<rparr>))"

text \<open>Lines 109-129: the callback of \<open>subscribe\<close>, closed over the channel.\<close>

definition onStatus :: "channel \<Rightarrow> string option \<Rightarrow> nat \<Rightarrow> status \<Rightarrow> manager \<Rightarrow> manager" where
  "onStatus ch sessionId rc st s =
     (let s1 = emit Log [Txt ''Subscription status:'', Txt (statusName st)] s
      in case st of
           SUBSCRIBED \<Rightarrow>
             startHeartbeat ch
               ((emit Log [Txt ''Successfully subscribed to real-time updates''] s1)
                \<lparr>isConnected := True, retryCount := 0\<rparr>)
         | CLOSED \<Rightarrow>
             handleReconnection sessionId rc
               ((emit Log [Txt ''Subscription closed, attempting to reconnect...''] s1)
                \<lparr>isConnected := False\<rparr>)
         | CHANNEL_ERROR \<Rightarrow>
             handleReconnection sessionId rc
               (toast (ToastError ''Connection error''
                         (Some ''There was a problem with the chat connection. Attempting to reconnect...''))
                  ((emit Err [Txt ''Channel error occurred''] s1)\<lparr>isConnected := False\<rparr>))
         | TIMED_OUT \<Rightarrow> s1)"

text \<open>
  \<open>supabase.removeChannel\<close>, as the client library does it (it is not code of this
  repository): the client unsubscribes the channel and drops it from its list, and the
  channel's \<open>subscribe\<close> callback is called with \<open>CLOSED\<close> before the hook's next
  statement runs. A channel the client does not hold is unsubscribed all the same.
\<close>

definition removeChannel :: "channel \<Rightarrow> manager \<Rightarrow> manager" where
  "removeChannel ch s =
     onStatus ch (heldSession ch) (heldRetry ch) CLOSED
       (s\<lparr>channels := filter (\<lambda>c. chanId c \<noteq> chanId ch) (channels s)\<rparr>)"

text \<open>\<open>supabase.channel(topic).on(...).on(...).subscribe(...)\<close> of lines 82-129: a new
  channel object, registered with the client, its listeners closed over \<open>sessionId\<close>
  and \<open>rc\<close>.\<close>

definition openChannel :: "string option \<Rightarrow> nat \<Rightarrow> string \<Rightarrow> manager \<Rightarrow> channel \<times> manager" where
  "openChannel sessionId rc sid s =
     (let ch = \<lparr>chanId = nextChannelId s, topic = ''chat_messages_'' @ sid,
                insertFilter = ''session_id=eq.'' @ sid,
                heldSession = sessionId, heldRetry = rc\<rparr>
      in (ch, s\<lparr>channels := channels s @ [ch], nextChannelId := Suc (nextChannelId s)\<rparr>))"

text \<open>Lines 72-133, up to the registration of the listeners; the listeners themselves
  are the functions \<open>onInsert\<close>, \<open>onSystemError\<close> and \<open>onStatus\<close> above. \<open>sessionId\<close>
  and \<open>rc\<close> are what the \<open>handleReconnection\<close> of this \<open>setupSubscription\<close>
  captured, \<open>sid\<close> is the argument. The result is the channel returned and the state.\<close>

definition setupSubscription ::
    "string option \<Rightarrow> nat \<Rightarrow> string \<Rightarrow> manager \<Rightarrow> channel \<times> manager" where
  "setupSubscription sessionId rc sid s =
     (let s1 = (case channelRef s of
                  Some old \<Rightarrow>
                    clearHeartbeat
                      ((removeChannel old
                         (emit Warn [Txt ''Subscription already exists, cleaning up first''] s))
                       \<lparr>channelRef := None\<rparr>)
                | None \<Rightarrow> s);
          s2 = emit Log [Txt ''Setting up subscription for session:'', Txt sid] s1;
          (ch, s3) = openChannel sessionId rc sid s2
      in (ch, s3\<lparr>channelRef := Some ch\<rparr>))"

text \<open>Lines 39-47: the function given to \<open>setTimeout\<close>, run when the timer fires;
  \<open>sid\<close> and \<open>rc\<close> are the session identifier and the retry counter it captured.\<close>

definition reconnectFire :: "string \<Rightarrow> nat \<Rightarrow> manager \<Rightarrow> manager" where
  "reconnectFire sid rc s =
     (let s1 = s\<lparr>retryCount := retryCount s + 1\<rparr>;
          s2 = (case channelRef s1 of
                  Some old \<Rightarrow>
                    (removeChannel old
                       (emit Log [Txt ''Removing existing channel before reconnection''] s1))
                    \<lparr>channelRef := None\<rparr>
                | None \<Rightarrow> s1)
      in snd (setupSubscription (Some sid) rc sid s2))"

text \<open>Lines 53-62: the function given to \<open>setInterval\<close>; \<open>closed\<close> says whether
  \<open>channel.state\<close> is \<open>'closed'\<close> at this tick. Otherwise a heartbeat is sent.\<close>

definition heartbeatTick :: "channel \<Rightarrow> bool \<Rightarrow> manager \<Rightarrow> manager" where
  "heartbeatTick ch closed s =
     (if closed then clearHeartbeat s else s\<lparr>heartbeats := heartbeats s @ [ch]\<rparr>)"

text \<open>Lines 63-68: the \<open>catch\<close> of the heartbeat's send, run when the promise that
  \<open>channel.send\<close> returned is rejected. The hook registers no \<open>then\<close>: a promise that
  is resolved, whatever its value, runs no code of the hook.\<close>

definition heartbeatFailed :: "string option \<Rightarrow> nat \<Rightarrow> manager \<Rightarrow> manager" where
  "heartbeatFailed sessionId rc s =
     handleReconnection sessionId rc
       ((clearHeartbeat (emit Err [Txt ''Heartbeat failed:'', Obj] s))\<lparr>isConnected := False\<rparr>)"

text \<open>Lines 135-150; \<open>rc\<close> is the retry counter the \<open>setupSubscription\<close> it closes
  over captured.\<close>

definition reconnect :: "string option \<Rightarrow> nat \<Rightarrow> manager \<Rightarrow> manager" where
  "reconnect sessionId rc s =
     (if \<not> truthy_str sessionId then s
      else
        let s1 = (emit Log [Txt ''Manual reconnection requested''] s)
                   \<lparr>retryCount := 0, isConnected := False\<rparr>;
            s2 = (case channelRef s1 of
                    Some old \<Rightarrow> (removeChannel old s1)\<lparr>channelRef := None\<rparr>
                  | None \<Rightarrow> s1);
            s3 = snd (setupSubscription sessionId rc (the sessionId) (clearHeartbeat s2))
        in toast (ToastSuccess ''Attempting to reconnect...''
                    (Some ''Please wait while we restore your connection.'')) s3)"

text \<open>Lines 154-164: the cleanup of the effect, run when the component unmounts.\<close>

definition cleanup :: "manager \<Rightarrow> manager" where
  "cleanup s =
     (let s1 = emit Log [Txt ''Cleaning up subscription''] s;
          s2 = (if truthy_num (timeoutRef s1) then clearTimer (the (timeoutRef s1)) s1 else s1);
          s3 = clearHeartbeat s2
      in case channelRef s3 of
           Some old \<Rightarrow> (removeChannel old s3)\<lparr>channelRef := None\<rparr>
         | None \<Rightarrow> s3)"

subsection \<open>The events that drive the hook\<close>

text \<open>
  Nothing runs in parallel: the hook's code runs when the UI calls \<open>setupSubscription\<close>
  or \<open>reconnect\<close>, when the component unmounts, when a timer fires, and when the
  transport calls a listener or settles the promise of a send. The UI may call the
  \<open>setupSubscription\<close> or the \<open>reconnect\<close> of any render, so these events carry the
  \<open>sessionId\<close> and the \<open>retryCount\<close> of that render. A listener runs with what its
  channel holds. The events do not tie a channel to the state: a listener may run at any
  time, also one of a channel that was removed. A timer fires only while the window
  holds it.
\<close>

text \<open>How the promise of \<open>channel.send\<close> settles: resolved with a value (the client
  resolves with \<open>ok\<close>, \<open>timed out\<close> or \<open>error\<close>), or rejected.\<close>

datatype settled = Resolved string | Rejected

datatype event =
    Setup "string option" nat string
  | Reconnect "string option" nat
  | Unmount
  | Fire nat bool
  | SendSettled channel settled
  | Insert string
  | SystemError channel
  | Status channel status

text \<open>The window runs the function of timer \<open>i\<close>: a timeout leaves the window's list
  as it fires, an interval stays. \<open>closed\<close> is what the channel reports to a heartbeat
  tick.\<close>

definition fire :: "nat \<Rightarrow> bool \<Rightarrow> manager \<Rightarrow> manager" where
  "fire i closed s =
     (case find (\<lambda>t. tid t = i) (timers s) of
        None \<Rightarrow> s
      | Some t \<Rightarrow>
          (case cb t of
             ReconnectFire sid rc \<Rightarrow>
               reconnectFire sid rc (if repeating t then s else clearTimer i s)
           | HeartbeatTick ch \<Rightarrow>
               heartbeatTick ch closed (if repeating t then s else clearTimer i s)))"

fun step :: "event \<Rightarrow> manager \<Rightarrow> manager" where
  "step (Setup sessionId rc sid) s = snd (setupSubscription sessionId rc sid s)"
| "step (Reconnect sessionId rc) s = reconnect sessionId rc s"
| "step Unmount s = cleanup s"
| "step (Fire i closed) s = fire i closed s"
| "step (SendSettled ch Rejected) s = heartbeatFailed (heldSession ch) (heldRetry ch) s"
| "step (SendSettled ch (Resolved v)) s = s"
| "step (Insert role) s = onInsert role s"
| "step (SystemError ch) s = onSystemError (heldSession ch) (heldRetry ch) s"
| "step (Status ch st) s = onStatus ch (heldSession ch) (heldRetry ch) st s"

fun run :: "event list \<Rightarrow> manager \<Rightarrow> manager" where
  "run [] s = s"
| "run (e # es) s = run es (step e s)"

text \<open>The pending reconnection timers and the active heartbeat timers of a state.\<close>

definition pendingReconnects :: "manager \<Rightarrow> timer list" where
  "pendingReconnects s = filter (\<lambda>t. \<not> repeating t) (timers s)"

definition activeHeartbeats :: "manager \<Rightarrow> timer list" where
  "activeHeartbeats s = filter repeating (timers s)"

subsection \<open>What holds of every state the hook can reach\<close>

text \<open>
  \<open>timers_ok\<close>: the window's ids are positive, below the counter and pairwise distinct;
  every heartbeat the window holds is the one \<open>heartbeatIntervalRef\<close> names, every
  pending reconnection the one \<open>timeoutRef\<close> names, and neither ref names a timer of
  the other kind. \<open>channels_ok\<close>: every channel the client holds is the one
  \<open>channelRef\<close> names, and that one was made before the channel counter's value.
\<close>

definition timers_ok :: "manager \<Rightarrow> bool" where
  "timers_ok s \<longleftrightarrow>
     0 < nextTimerId s \<and>
     distinct (map tid (timers s)) \<and>
     (\<forall>t \<in> set (timers s). 0 < tid t \<and> tid t < nextTimerId s \<and>
        (repeating t \<longrightarrow> heartbeatIntervalRef s = Some (tid t) \<and> timeoutRef s \<noteq> Some (tid t)) \<and>
        (\<not> repeating t \<longrightarrow> timeoutRef s = Some (tid t) \<and> heartbeatIntervalRef s \<noteq> Some (tid t))) \<and>
     (\<forall>i. timeoutRef s = Some i \<longrightarrow> i < nextTimerId s) \<and>
     (\<forall>i. heartbeatIntervalRef s = Some i \<longrightarrow> i < nextTimerId s)"

definition channels_ok :: "manager \<Rightarrow> bool" where
  "channels_ok s \<longleftrightarrow>
     distinct (map chanId (channels s)) \<and>
     (\<forall>c \<in> set (channels s). channelRef s = Some c) \<and>
     (\<forall>c. channelRef s = Some c \<longrightarrow> chanId c < nextChannelId s)"

definition manager_ok :: "manager \<Rightarrow> bool" where
  "manager_ok s \<longleftrightarrow> timers_ok s \<and> channels_ok s"

subsection \<open>Concrete scenarios\<close>

text \<open>
  The channels a manager opens one after the other for session \<open>s1\<close> when every call
  comes from the first render (session \<open>s1\<close>, retry counter 0); the manager after the
  first channel was set up and reported \<open>SUBSCRIBED\<close>; and the same after it then
  reported \<open>CLOSED\<close>.
\<close>

definition chan :: "nat \<Rightarrow> channel" where
  "chan n = \<lparr>chanId = n, topic = ''chat_messages_s1'', insertFilter = ''session_id=eq.s1'',
             heldSession = Some ''s1'', heldRetry = 0\<rparr>"

definition chan1 :: channel where
  "chan1 = chan 1"

definition subscribed1 :: manager where
  "subscribed1 = run [Setup (Some ''s1'') 0 ''s1'', Status chan1 SUBSCRIBED] init"

definition closed1 :: manager where
  "closed1 = run [Setup (Some ''s1'') 0 ''s1'', Status chan1 SUBSCRIBED, Status chan1 CLOSED] init"

text \<open>
  The automatic path on its own: the first channel reports \<open>CLOSED\<close> and the scheduled
  reconnections fire one after the other, with no \<open>SUBSCRIBED\<close> in between; the state
  after two and after five of them. \<open>retrying k\<close> describes the state after \<open>k\<close>
  of them: the retry counter is \<open>k\<close>, no toast was emitted, channel \<open>k + 1\<close> is held
  and the reconnection \<open>k + 1\<close> is pending.
\<close>

definition retried2 :: manager where
  "retried2 = run [Setup (Some ''s1'') 0 ''s1'', Status chan1 CLOSED,
                   Fire 1 False, Fire 2 False] init"

definition retried5 :: manager where
  "retried5 = run [Fire 3 False, Fire 4 False, Fire 5 False] retried2"

definition retrying :: "nat \<Rightarrow> manager \<Rightarrow> bool" where
  "retrying k s \<longleftrightarrow>
     retryCount s = k \<and> toasts s = [] \<and> heartbeatIntervalRef s = None \<and>
     channelRef s = Some (chan (Suc k)) \<and> channels s = [chan (Suc k)] \<and>
     nextChannelId s = Suc (Suc k) \<and> timeoutRef s = Some (Suc k) \<and>
     timers s = [\<lparr>tid = Suc k, repeating = False, ms = 1000, cb = ReconnectFire ''s1'' 0\<rparr>] \<and>
     nextTimerId s = Suc (Suc k)"

text \<open>
  The same first channel when \<open>setupSubscription\<close> is called from a render whose
  \<open>sessionId\<close> is null, and the manager once that channel reported \<open>SUBSCRIBED\<close>.
\<close>

definition chanN :: channel where
  "chanN = \<lparr>chanId = 1, topic = ''chat_messages_s1'', insertFilter = ''session_id=eq.s1'',
             heldSession = None, heldRetry = 0\<rparr>"

definition subscribedN :: manager where
  "subscribedN = run [Setup None 0 ''s1'', Status chanN SUBSCRIBED] init"

section \<open>The invariant\<close>

lemma timers_ok_cong:
  "timers s' = timers s \<Longrightarrow> nextTimerId s' = nextTimerId s \<Longrightarrow> timeoutRef s' = timeoutRef s \<Longrightarrow>
   heartbeatIntervalRef s' = heartbeatIntervalRef s \<Longrightarrow> timers_ok s' = timers_ok s"
  by (simp add: timers_ok_def)

lemma channels_ok_cong:
  "channels s' = channels s \<Longrightarrow> channelRef s' = channelRef s \<Longrightarrow>
   nextChannelId s' = nextChannelId s \<Longrightarrow> channels_ok s' = channels_ok s"
  by (simp add: channels_ok_def)

lemma timers_ok_emit [simp]: "timers_ok (emit l ps s) = timers_ok s"
  by (rule timers_ok_cong) (simp_all add: emit_def)

lemma timers_ok_toast [simp]: "timers_ok (toast t s) = timers_ok s"
  by (rule timers_ok_cong) (simp_all add: toast_def)

lemma channels_ok_emit [simp]: "channels_ok (emit l ps s) = channels_ok s"
  by (rule channels_ok_cong) (simp_all add: emit_def)

lemma channels_ok_toast [simp]: "channels_ok (toast t s) = channels_ok s"
  by (rule channels_ok_cong) (simp_all add: toast_def)

lemma timers_ok_clearTimer: "timers_ok s \<Longrightarrow> timers_ok (clearTimer i s)"
  by (auto simp: timers_ok_def clearTimer_def distinct_map_filter)

lemma timers_ok_no_heartbeat:
  "timers_ok s \<Longrightarrow> \<not> truthy_num (heartbeatIntervalRef s) \<Longrightarrow> activeHeartbeats s = []"
  by (auto simp: timers_ok_def truthy_num_def activeHeartbeats_def filter_empty_conv
           split: option.splits)

lemma timers_ok_no_reconnect:
  "timers_ok s \<Longrightarrow> \<not> truthy_num (timeoutRef s) \<Longrightarrow> pendingReconnects s = []"
  by (auto simp: timers_ok_def truthy_num_def pendingReconnects_def filter_empty_conv
           split: option.splits)

lemma timers_ok_clearHeartbeat: "timers_ok s \<Longrightarrow> timers_ok (clearHeartbeat s)"
  by (auto simp: timers_ok_def clearHeartbeat_def clearTimer_def distinct_map_filter truthy_num_def
           split: option.splits)

lemma activeHeartbeats_clearHeartbeat:
  "timers_ok s \<Longrightarrow> activeHeartbeats (clearHeartbeat s) = []"
  by (auto simp: timers_ok_def clearHeartbeat_def clearTimer_def truthy_num_def
                 activeHeartbeats_def filter_empty_conv split: option.splits)

lemma pendingReconnects_clearHeartbeat:
  "timers_ok s \<Longrightarrow> pendingReconnects (clearHeartbeat s) = pendingReconnects s"
  by (auto simp: timers_ok_def clearHeartbeat_def clearTimer_def truthy_num_def
                 pendingReconnects_def split: option.splits intro!: filter_cong)

lemma emit_fields [simp]:
  "retryCount (emit l ps s) = retryCount s"
  "isConnected (emit l ps s) = isConnected s"
  "channelRef (emit l ps s) = channelRef s"
  "timeoutRef (emit l ps s) = timeoutRef s"
  "heartbeatIntervalRef (emit l ps s) = heartbeatIntervalRef s"
  "channels (emit l ps s) = channels s"
  "timers (emit l ps s) = timers s"
  "nextTimerId (emit l ps s) = nextTimerId s"
  "nextChannelId (emit l ps s) = nextChannelId s"
  "heartbeats (emit l ps s) = heartbeats s"
  "toasts (emit l ps s) = toasts s"
  "console (emit l ps s) = console s @ [(l, ps)]"
  by (simp_all add: emit_def)

lemma toast_fields [simp]:
  "retryCount (toast t s) = retryCount s"
  "isConnected (toast t s) = isConnected s"
  "channelRef (toast t s) = channelRef s"
  "timeoutRef (toast t s) = timeoutRef s"
  "heartbeatIntervalRef (toast t s) = heartbeatIntervalRef s"
  "channels (toast t s) = channels s"
  "timers (toast t s) = timers s"
  "nextTimerId (toast t s) = nextTimerId s"
  "nextChannelId (toast t s) = nextChannelId s"
  "heartbeats (toast t s) = heartbeats s"
  "toasts (toast t s) = toasts s @ [t]"
  "console (toast t s) = console s"
  by (simp_all add: toast_def)

lemma timers_ok_fields [simp]:
  "timers_ok (s\<lparr>isConnected := b\<rparr>) = timers_ok s"
  "timers_ok (s\<lparr>retryCount := n\<rparr>) = timers_ok s"
  "timers_ok (s\<lparr>channelRef := c\<rparr>) = timers_ok s"
  "timers_ok (s\<lparr>heartbeats := h\<rparr>) = timers_ok s"
  "timers_ok (s\<lparr>channels := cs\<rparr>) = timers_ok s"
  by (simp_all add: timers_ok_def)

lemma channels_ok_fields [simp]:
  "channels_ok (s\<lparr>isConnected := b\<rparr>) = channels_ok s"
  "channels_ok (s\<lparr>retryCount := n\<rparr>) = channels_ok s"
  "channels_ok (s\<lparr>heartbeats := h\<rparr>) = channels_ok s"
  "channels_ok (clearTimer i s) = channels_ok s"
  "channels_ok (clearHeartbeat s) = channels_ok s"
  by (simp_all add: channels_ok_def clearTimer_def clearHeartbeat_def)

lemma handleReconnection_terminal:
  "\<not> truthy_str sessionId \<or> MAX_RETRY_ATTEMPTS \<le> rc \<Longrightarrow>
   handleReconnection sessionId rc s =
     toast (ToastError ''Unable to maintain connection. Please refresh the page.'' None)
       (emit Err [Txt ''Max retry attempts reached or no session ID''] s)"
  by (simp add: handleReconnection_def)

lemma handleReconnection_schedule:
  assumes "truthy_str sessionId" "rc < MAX_RETRY_ATTEMPTS"
  shows "timers (handleReconnection sessionId rc s) =
           (if truthy_num (timeoutRef s)
            then filter (\<lambda>t. tid t \<noteq> the (timeoutRef s)) (timers s) else timers s)
           @ [\<lparr>tid = nextTimerId s, repeating = False,
                 ms = min (INITIAL_RETRY_DELAY * 2 ^ rc) MAX_RETRY_DELAY,
                 cb = ReconnectFire (the sessionId) rc\<rparr>]"
    and "timeoutRef (handleReconnection sessionId rc s) = Some (nextTimerId s)"
    and "nextTimerId (handleReconnection sessionId rc s) = Suc (nextTimerId s)"
    and "heartbeatIntervalRef (handleReconnection sessionId rc s) = heartbeatIntervalRef s"
    and "retryCount (handleReconnection sessionId rc s) = retryCount s"
    and "isConnected (handleReconnection sessionId rc s) = isConnected s"
    and "toasts (handleReconnection sessionId rc s) = toasts s"
  using assms
  by (simp_all add: handleReconnection_def setTimeout_def emit_def clearTimer_def
        Let_def)

lemma handleReconnection_channels [simp]:
  "channels (handleReconnection sessionId rc s) = channels s"
  "channelRef (handleReconnection sessionId rc s) = channelRef s"
  "nextChannelId (handleReconnection sessionId rc s) = nextChannelId s"
  by (simp_all add: handleReconnection_def setTimeout_def emit_def clearTimer_def toast_def
        Let_def)

lemma channels_ok_handleReconnection [simp]:
  "channels_ok (handleReconnection sessionId rc s) = channels_ok s"
  by (rule channels_ok_cong) simp_all

lemma timers_ok_setTimeout:
  assumes "timers_ok s" "pendingReconnects s = []"
  shows "timers_ok ((snd (setTimeout f d s))\<lparr>timeoutRef := Some (fst (setTimeout f d s))\<rparr>)"
proof -
  from assms(2) have rep: "\<forall>t \<in> set (timers s). repeating t"
    by (simp add: pendingReconnects_def filter_empty_conv)
  with assms(1) show ?thesis
    by (fastforce simp: timers_ok_def setTimeout_def)
qed

lemma timers_ok_setInterval:
  assumes "timers_ok s" "activeHeartbeats s = []"
  shows "timers_ok ((snd (setInterval f d s))\<lparr>heartbeatIntervalRef := Some (fst (setInterval f d s))\<rparr>)"
proof -
  from assms(2) have rep: "\<forall>t \<in> set (timers s). \<not> repeating t"
    by (simp add: activeHeartbeats_def filter_empty_conv)
  with assms(1) show ?thesis
    by (fastforce simp: timers_ok_def setInterval_def)
qed

lemma pendingReconnects_clearTimeout:
  "timers_ok s \<Longrightarrow> truthy_num (timeoutRef s) \<Longrightarrow>
   pendingReconnects (clearTimer (the (timeoutRef s)) s) = []"
  by (auto simp: timers_ok_def clearTimer_def truthy_num_def pendingReconnects_def
        filter_empty_conv split: option.splits)

lemma activeHeartbeats_clearTimeout:
  "timers_ok s \<Longrightarrow> timeoutRef s = Some i \<Longrightarrow>
   activeHeartbeats (clearTimer i s) = activeHeartbeats s"
  by (auto simp: timers_ok_def clearTimer_def activeHeartbeats_def intro!: filter_cong)

lemma timers_ok_handleReconnection:
  assumes "timers_ok s"
  shows "timers_ok (handleReconnection sessionId rc s)"
proof (cases "\<not> truthy_str sessionId \<or> MAX_RETRY_ATTEMPTS \<le> rc")
  case True
  then show ?thesis using assms by (simp add: handleReconnection_terminal)
next
  case False
  define s1 where "s1 = emit Log [Txt ''Attempting reconnection in '',
     Num (min (INITIAL_RETRY_DELAY * 2 ^ rc) MAX_RETRY_DELAY),
     Txt ''ms (attempt '', Num (rc + 1), Txt '')''] s"
  define s2 where "s2 = (if truthy_num (timeoutRef s1) then clearTimer (the (timeoutRef s1)) s1 else s1)"
  have ok1: "timers_ok s1" using assms by (simp add: s1_def)
  have ok2: "timers_ok s2" using ok1 by (simp add: s2_def timers_ok_clearTimer)
  have none: "pendingReconnects s2 = []"
    using ok1 by (simp add: s2_def pendingReconnects_clearTimeout timers_ok_no_reconnect)
  have "handleReconnection sessionId rc s =
          (snd (setTimeout (ReconnectFire (the sessionId) rc)
                  (min (INITIAL_RETRY_DELAY * 2 ^ rc) MAX_RETRY_DELAY) s2))
          \<lparr>timeoutRef := Some (fst (setTimeout (ReconnectFire (the sessionId) rc)
                  (min (INITIAL_RETRY_DELAY * 2 ^ rc) MAX_RETRY_DELAY) s2))\<rparr>"
    using False by (simp add: handleReconnection_def s1_def s2_def Let_def split: prod.splits)
  then show ?thesis using timers_ok_setTimeout [OF ok2 none] by simp
qed

lemma timers_ok_startHeartbeat:
  assumes "timers_ok s"
  shows "timers_ok (startHeartbeat ch s)"
proof -
  have "startHeartbeat ch s =
          (snd (setInterval (HeartbeatTick ch) 30000 (clearHeartbeat s)))
          \<lparr>heartbeatIntervalRef := Some (fst (setInterval (HeartbeatTick ch) 30000 (clearHeartbeat s)))\<rparr>"
    by (simp add: startHeartbeat_def split: prod.splits)
  then show ?thesis
    using timers_ok_setInterval [OF timers_ok_clearHeartbeat [OF assms]
            activeHeartbeats_clearHeartbeat [OF assms]]
    by simp
qed

lemma startHeartbeat_channels [simp]:
  "channels (startHeartbeat ch s) = channels s"
  "channelRef (startHeartbeat ch s) = channelRef s"
  "nextChannelId (startHeartbeat ch s) = nextChannelId s"
  by (simp_all add: startHeartbeat_def setInterval_def clearHeartbeat_def clearTimer_def
        split: prod.splits)

lemma channels_ok_startHeartbeat [simp]:
  "channels_ok (startHeartbeat ch s) = channels_ok s"
  by (rule channels_ok_cong) simp_all

lemma channels_ok_unreferenced: "channels_ok s \<Longrightarrow> channelRef s = None \<Longrightarrow> channels s = []"
  by (cases "channels s") (auto simp: channels_ok_def)

lemma channels_ok_empty: "channels s = [] \<Longrightarrow> channelRef s = None \<Longrightarrow> channels_ok s"
  by (simp add: channels_ok_def)

lemma clearHeartbeat_fields [simp]:
  "retryCount (clearHeartbeat s) = retryCount s"
  "isConnected (clearHeartbeat s) = isConnected s"
  "channelRef (clearHeartbeat s) = channelRef s"
  "timeoutRef (clearHeartbeat s) = timeoutRef s"
  "channels (clearHeartbeat s) = channels s"
  "nextTimerId (clearHeartbeat s) = nextTimerId s"
  "nextChannelId (clearHeartbeat s) = nextChannelId s"
  "toasts (clearHeartbeat s) = toasts s"
  "console (clearHeartbeat s) = console s"
  "set (timers (clearHeartbeat s)) \<subseteq> set (timers s)"
  by (auto simp: clearHeartbeat_def clearTimer_def)

lemma onStatus_channels [simp]:
  "channels (onStatus ch sessionId rc st s) = channels s"
  "channelRef (onStatus ch sessionId rc st s) = channelRef s"
  "nextChannelId (onStatus ch sessionId rc st s) = nextChannelId s"
  by (cases st; simp add: onStatus_def Let_def)+

lemma timers_ok_onStatus: "timers_ok s \<Longrightarrow> timers_ok (onStatus ch sessionId rc st s)"
  by (cases st)
     (simp_all add: onStatus_def Let_def timers_ok_handleReconnection timers_ok_startHeartbeat)

lemma removeChannel_channels [simp]:
  "channels (removeChannel ch s) = filter (\<lambda>c. chanId c \<noteq> chanId ch) (channels s)"
  "channelRef (removeChannel ch s) = channelRef s"
  "nextChannelId (removeChannel ch s) = nextChannelId s"
  by (simp_all add: removeChannel_def)

lemma timers_ok_removeChannel: "timers_ok s \<Longrightarrow> timers_ok (removeChannel ch s)"
  by (simp add: removeChannel_def timers_ok_onStatus)

lemma channels_ok_removed:
  "channels_ok s \<Longrightarrow> channelRef s = Some old \<Longrightarrow>
   filter (\<lambda>c. chanId c \<noteq> chanId old) (channels s) = []"
  by (auto simp: channels_ok_def filter_empty_conv)

lemma channels_ok_teardown:
  "channels_ok s \<Longrightarrow> channelRef s = Some old \<Longrightarrow>
   channels_ok ((removeChannel old s)\<lparr>channelRef := None\<rparr>)"
  by (rule channels_ok_empty) (simp_all add: channels_ok_removed)

lemma manager_ok_init: "manager_ok init"
  by (simp add: manager_ok_def timers_ok_def channels_ok_def init_def)

lemma manager_ok_emit [simp]: "manager_ok (emit l ps s) = manager_ok s"
  by (simp add: manager_ok_def)

lemma manager_ok_toast [simp]: "manager_ok (toast t s) = manager_ok s"
  by (simp add: manager_ok_def)

lemma manager_ok_clearHeartbeat: "manager_ok s \<Longrightarrow> manager_ok (clearHeartbeat s)"
  by (simp add: manager_ok_def timers_ok_clearHeartbeat)

lemma manager_ok_teardown:
  "manager_ok s \<Longrightarrow> channelRef s = Some old \<Longrightarrow>
   manager_ok ((removeChannel old s)\<lparr>channelRef := None\<rparr>)"
  by (simp add: manager_ok_def channels_ok_teardown timers_ok_removeChannel)

text \<open>Setting up from a state without a handle: the new channel is the only one.\<close>

lemma setup_fresh_eq:
  assumes "manager_ok s" "channelRef s = None"
  shows "snd (setupSubscription sessionId rc sid s) =
          (emit Log [Txt ''Setting up subscription for session:'', Txt sid] s)
          \<lparr>channels := [\<lparr>chanId = nextChannelId s, topic = ''chat_messages_'' @ sid,
             insertFilter = ''session_id=eq.'' @ sid, heldSession = sessionId, heldRetry = rc\<rparr>],
           nextChannelId := Suc (nextChannelId s),
           channelRef := Some \<lparr>chanId = nextChannelId s, topic = ''chat_messages_'' @ sid,
             insertFilter = ''session_id=eq.'' @ sid, heldSession = sessionId, heldRetry = rc\<rparr>\<rparr>"
proof -
  have none: "channels s = []"
    using assms by (simp add: manager_ok_def channels_ok_unreferenced)
  show ?thesis
    using assms(2) none by (simp add: setupSubscription_def openChannel_def Let_def)
qed

lemma setup_fresh:
  assumes "manager_ok s" "channelRef s = None"
  shows "manager_ok (snd (setupSubscription sessionId rc sid s))"
    and "channels (snd (setupSubscription sessionId rc sid s)) =
           [\<lparr>chanId = nextChannelId s, topic = ''chat_messages_'' @ sid,
             insertFilter = ''session_id=eq.'' @ sid, heldSession = sessionId, heldRetry = rc\<rparr>]"
    and "timers (snd (setupSubscription sessionId rc sid s)) = timers s"
  using assms(1)
  unfolding setup_fresh_eq [OF assms]
  by (simp_all add: manager_ok_def timers_ok_def channels_ok_def)

text \<open>Setting up from a state with a handle is its teardown followed by a fresh setup.\<close>

lemma setup_held:
  assumes "channelRef s = Some old"
  shows "setupSubscription sessionId rc sid s =
           setupSubscription sessionId rc sid
             (clearHeartbeat
                ((removeChannel old
                    (emit Warn [Txt ''Subscription already exists, cleaning up first''] s))
                 \<lparr>channelRef := None\<rparr>))"
proof -
  let ?s1 = "clearHeartbeat
                ((removeChannel old
                    (emit Warn [Txt ''Subscription already exists, cleaning up first''] s))
                 \<lparr>channelRef := None\<rparr>)"
  have none: "channelRef ?s1 = None" by simp
  show ?thesis
    unfolding setupSubscription_def [of sessionId rc sid s]
      setupSubscription_def [of sessionId rc sid ?s1] Let_def
    using assms none by simp
qed

lemma manager_ok_torn:
  assumes "manager_ok s" "channelRef s = Some old"
  shows "manager_ok (clearHeartbeat
          ((removeChannel old
              (emit Warn [Txt ''Subscription already exists, cleaning up first''] s))
           \<lparr>channelRef := None\<rparr>))"
  using assms by (simp add: manager_ok_clearHeartbeat manager_ok_teardown)

lemma manager_ok_setupSubscription:
  assumes "manager_ok s"
  shows "manager_ok (snd (setupSubscription sessionId rc sid s))"
proof (cases "channelRef s")
  case None
  with assms show ?thesis by (rule setup_fresh(1))
next
  case (Some old)
  show ?thesis
    unfolding setup_held [OF Some]
    by (rule setup_fresh(1) [OF manager_ok_torn [OF assms Some]]) simp
qed

lemma setupSubscription_channels:
  assumes "manager_ok s"
  shows "channels (snd (setupSubscription sessionId rc sid s)) =
           [\<lparr>chanId = nextChannelId s, topic = ''chat_messages_'' @ sid,
             insertFilter = ''session_id=eq.'' @ sid, heldSession = sessionId, heldRetry = rc\<rparr>]"
proof (cases "channelRef s")
  case None
  with assms show ?thesis by (rule setup_fresh(2))
next
  case (Some old)
  let ?s1 = "clearHeartbeat
          ((removeChannel old
              (emit Warn [Txt ''Subscription already exists, cleaning up first''] s))
           \<lparr>channelRef := None\<rparr>)"
  have "channelRef ?s1 = None" by simp
  from setup_fresh(2) [OF manager_ok_torn [OF assms Some] this, of sessionId rc sid]
  show ?thesis unfolding setup_held [OF Some] by simp
qed

lemma retryCount_onStatus_closed [simp]:
  "retryCount (onStatus ch sessionId rc CLOSED s) = retryCount s"
  by (simp add: onStatus_def Let_def handleReconnection_def setTimeout_def emit_def toast_def
        clearTimer_def)

lemma retryCount_removeChannel [simp]: "retryCount (removeChannel ch s) = retryCount s"
  by (simp add: removeChannel_def)

lemma retryCount_setupSubscription [simp]:
  "retryCount (snd (setupSubscription sessionId rc sid s)) = retryCount s"
  by (cases "channelRef s")
     (simp_all add: setupSubscription_def openChannel_def Let_def)

lemma manager_ok_reconnectFire:
  assumes "manager_ok s"
  shows "manager_ok (reconnectFire sid rc s)"
proof -
  define s1 where "s1 = s\<lparr>retryCount := retryCount s + 1\<rparr>"
  define s2 where "s2 = (case channelRef s1 of
                  Some old \<Rightarrow>
                    (removeChannel old
                       (emit Log [Txt ''Removing existing channel before reconnection''] s1))
                    \<lparr>channelRef := None\<rparr>
                | None \<Rightarrow> s1)"
  have ok1: "manager_ok s1" using assms by (simp add: s1_def manager_ok_def)
  have ok2: "manager_ok s2"
  proof (cases "channelRef s1")
    case None
    with ok1 show ?thesis by (simp add: s2_def)
  next
    case (Some old)
    have "manager_ok ((removeChannel old
                       (emit Log [Txt ''Removing existing channel before reconnection''] s1))
                    \<lparr>channelRef := None\<rparr>)"
      by (rule manager_ok_teardown) (use ok1 Some in simp_all)
    with Some show ?thesis by (simp add: s2_def)
  qed
  have "reconnectFire sid rc s = snd (setupSubscription (Some sid) rc sid s2)"
    unfolding reconnectFire_def Let_def s1_def s2_def by (rule refl)
  with ok2 show ?thesis by (simp add: manager_ok_setupSubscription)
qed

lemma manager_ok_heartbeatTick: "manager_ok s \<Longrightarrow> manager_ok (heartbeatTick ch closed s)"
  by (simp add: manager_ok_def heartbeatTick_def timers_ok_clearHeartbeat)

lemma manager_ok_clearTimer: "manager_ok s \<Longrightarrow> manager_ok (clearTimer i s)"
  by (simp add: manager_ok_def timers_ok_clearTimer)

lemma manager_ok_fire: "manager_ok s \<Longrightarrow> manager_ok (fire i closed s)"
  by (simp add: fire_def manager_ok_reconnectFire manager_ok_heartbeatTick manager_ok_clearTimer
        split: option.splits callback.splits)

lemma manager_ok_handleReconnection: "manager_ok s \<Longrightarrow> manager_ok (handleReconnection sessionId rc s)"
  by (simp add: manager_ok_def timers_ok_handleReconnection)

lemma manager_ok_heartbeatFailed: "manager_ok s \<Longrightarrow> manager_ok (heartbeatFailed sessionId rc s)"
  unfolding heartbeatFailed_def
  by (rule manager_ok_handleReconnection) (simp add: manager_ok_def timers_ok_clearHeartbeat)

lemma manager_ok_onInsert: "manager_ok s \<Longrightarrow> manager_ok (onInsert role s)"
  by (simp add: manager_ok_def onInsert_def Let_def)

lemma manager_ok_onSystemError: "manager_ok s \<Longrightarrow> manager_ok (onSystemError sessionId rc s)"
  unfolding onSystemError_def
  by (rule manager_ok_handleReconnection) (simp add: manager_ok_def)

lemma manager_ok_onStatus: "manager_ok s \<Longrightarrow> manager_ok (onStatus ch sessionId rc st s)"
  by (simp add: manager_ok_def timers_ok_onStatus
        channels_ok_cong [of "onStatus ch sessionId rc st s" s])

lemma manager_ok_reconnect: "manager_ok s \<Longrightarrow> manager_ok (reconnect sessionId rc s)"
proof (cases "truthy_str sessionId")
  case False
  then show "manager_ok s \<Longrightarrow> ?thesis" by (simp add: reconnect_def)
next
  case True
  assume ok: "manager_ok s"
  define s1 where "s1 = (emit Log [Txt ''Manual reconnection requested''] s)
                          \<lparr>retryCount := 0, isConnected := False\<rparr>"
  define s2 where "s2 = (case channelRef s1 of
                           Some old \<Rightarrow> (removeChannel old s1)\<lparr>channelRef := None\<rparr>
                         | None \<Rightarrow> s1)"
  have "manager_ok s1" using ok by (simp add: s1_def manager_ok_def)
  then have "manager_ok s2"
    by (auto simp: s2_def manager_ok_teardown split: option.splits)
  then have "manager_ok (clearHeartbeat s2)" by (rule manager_ok_clearHeartbeat)
  then have "manager_ok (snd (setupSubscription sessionId rc (the sessionId) (clearHeartbeat s2)))"
    by (rule manager_ok_setupSubscription)
  moreover have "reconnect sessionId rc s =
      toast (ToastSuccess ''Attempting to reconnect...''
               (Some ''Please wait while we restore your connection.''))
        (snd (setupSubscription sessionId rc (the sessionId) (clearHeartbeat s2)))"
    unfolding reconnect_def Let_def s1_def s2_def using True by simp
  ultimately show ?thesis by simp
qed

lemma manager_ok_cleanup: "manager_ok s \<Longrightarrow> manager_ok (cleanup s)"
proof -
  assume ok: "manager_ok s"
  define s3 where "s3 = clearHeartbeat
     (if truthy_num (timeoutRef (emit Log [Txt ''Cleaning up subscription''] s))
      then clearTimer (the (timeoutRef (emit Log [Txt ''Cleaning up subscription''] s)))
             (emit Log [Txt ''Cleaning up subscription''] s)
      else emit Log [Txt ''Cleaning up subscription''] s)"
  have ok3: "manager_ok s3"
    using ok by (simp add: s3_def manager_ok_clearHeartbeat manager_ok_clearTimer)
  have "cleanup s = (case channelRef s3 of
                       Some old \<Rightarrow> (removeChannel old s3)\<lparr>channelRef := None\<rparr>
                     | None \<Rightarrow> s3)"
    unfolding cleanup_def Let_def s3_def by (rule refl)
  with ok3 show ?thesis by (auto simp: manager_ok_teardown split: option.splits)
qed

lemma manager_ok_step: "manager_ok s \<Longrightarrow> manager_ok (step e s)"
proof (cases e)
  case (SendSettled ch r)
  then show "manager_ok s \<Longrightarrow> ?thesis"
    by (cases r) (simp_all add: manager_ok_heartbeatFailed)
qed (simp_all add: manager_ok_setupSubscription manager_ok_reconnect manager_ok_cleanup
       manager_ok_fire manager_ok_onInsert manager_ok_onSystemError manager_ok_onStatus)

lemma manager_ok_run: "manager_ok s \<Longrightarrow> manager_ok (run es s)"
  by (induction es arbitrary: s) (simp_all add: manager_ok_step)

lemma manager_ok_reachable: "manager_ok (run es init)"
  by (rule manager_ok_run [OF manager_ok_init])

lemma at_most_one_by_key:
  assumes "distinct (map f xs)" "\<forall>x \<in> set xs. P x \<longrightarrow> f x = k"
  shows "length (filter P xs) \<le> 1"
  using assms
proof (induction xs)
  case Nil
  then show ?case by simp
next
  case (Cons x xs)
  show ?case
  proof (cases "P x")
    case False
    with Cons show ?thesis by simp
  next
    case True
    with Cons.prems have "f x = k" by simp
    moreover from Cons.prems have "f x \<notin> f ` set xs" by simp
    then have "\<forall>y \<in> set xs. f y \<noteq> f x" by (metis imageI)
    moreover from Cons.prems have "\<forall>y \<in> set xs. P y \<longrightarrow> f y = k" by simp
    ultimately have "\<forall>y \<in> set xs. \<not> P y" by blast
    then have "filter P xs = []" by (simp add: filter_empty_conv)
    with True show ?thesis by simp
  qed
qed

lemma timers_ok_one_heartbeat: "timers_ok s \<Longrightarrow> length (activeHeartbeats s) \<le> 1"
  unfolding activeHeartbeats_def
  by (rule at_most_one_by_key [where f = tid and k = "the (heartbeatIntervalRef s)"])
     (auto simp: timers_ok_def)

lemma timers_ok_one_reconnect: "timers_ok s \<Longrightarrow> length (pendingReconnects s) \<le> 1"
  unfolding pendingReconnects_def
  by (rule at_most_one_by_key [where f = tid and k = "the (timeoutRef s)"])
     (auto simp: timers_ok_def)

lemma channels_ok_one_channel: "channels_ok s \<Longrightarrow> length (channels s) \<le> 1"
  using at_most_one_by_key [of chanId "channels s" "\<lambda>c. True" "chanId (the (channelRef s))"]
  by (auto simp: channels_ok_def)

section \<open>Facts about the single functions\<close>

lemma pendingReconnects_handleReconnection:
  assumes "timers_ok s" "truthy_str sessionId" "rc < MAX_RETRY_ATTEMPTS"
  shows "pendingReconnects (handleReconnection sessionId rc s) =
           [\<lparr>tid = nextTimerId s, repeating = False,
             ms = min (INITIAL_RETRY_DELAY * 2 ^ rc) MAX_RETRY_DELAY,
             cb = ReconnectFire (the sessionId) rc\<rparr>]"
proof (cases "truthy_num (timeoutRef s)")
  case True
  with assms(1) have "pendingReconnects (clearTimer (the (timeoutRef s)) s) = []"
    by (simp add: pendingReconnects_clearTimeout)
  then show ?thesis
    using True assms(2,3)
    by (simp add: handleReconnection_schedule pendingReconnects_def clearTimer_def)
next
  case False
  with assms(1) have "pendingReconnects s = []" by (simp add: timers_ok_no_reconnect)
  then show ?thesis
    using False assms(2,3)
    by (simp add: handleReconnection_schedule pendingReconnects_def)
qed

lemma activeHeartbeats_handleReconnection:
  assumes "timers_ok s"
  shows "activeHeartbeats (handleReconnection sessionId rc s) = activeHeartbeats s"
proof (cases "\<not> truthy_str sessionId \<or> MAX_RETRY_ATTEMPTS \<le> rc")
  case True
  then show ?thesis by (simp add: handleReconnection_terminal activeHeartbeats_def)
next
  case False
  then have sched: "truthy_str sessionId" "rc < MAX_RETRY_ATTEMPTS" by simp_all
  show ?thesis
  proof (cases "truthy_num (timeoutRef s)")
    case True
    then obtain i where i: "timeoutRef s = Some i" by (auto simp: truthy_num_def split: option.splits)
    with assms have "activeHeartbeats (clearTimer i s) = activeHeartbeats s"
      by (simp add: activeHeartbeats_clearTimeout)
    then show ?thesis
      using True i by (simp add: handleReconnection_schedule [OF sched] activeHeartbeats_def clearTimer_def)
  next
    case False
    then show ?thesis
      by (simp add: handleReconnection_schedule [OF sched] activeHeartbeats_def)
  qed
qed

lemma retryCount_handleReconnection [simp]:
  "retryCount (handleReconnection sessionId rc s) = retryCount s"
  by (simp add: handleReconnection_def setTimeout_def emit_def toast_def clearTimer_def Let_def)

lemma find_appended:
  "\<forall>t \<in> set xs. \<not> P t \<Longrightarrow> P y \<Longrightarrow> find P (xs @ [y]) = Some y"
  by (induction xs) simp_all

lemma heartbeatFailed_schedule:
  assumes "timers_ok s" "truthy_str sessionId" "rc < MAX_RETRY_ATTEMPTS"
  shows "pendingReconnects (heartbeatFailed sessionId rc s) =
           [\<lparr>tid = nextTimerId s, repeating = False,
             ms = min (INITIAL_RETRY_DELAY * 2 ^ rc) MAX_RETRY_DELAY,
             cb = ReconnectFire (the sessionId) rc\<rparr>]"
proof -
  let ?s1 = "(clearHeartbeat (emit Err [Txt ''Heartbeat failed:'', Obj] s))\<lparr>isConnected := False\<rparr>"
  have "timers_ok ?s1" using assms(1) by (simp add: timers_ok_clearHeartbeat)
  from pendingReconnects_handleReconnection [OF this assms(2,3)]
  show ?thesis by (simp add: heartbeatFailed_def)
qed

lemma heartbeatFailed_no_heartbeat:
  assumes "timers_ok s"
  shows "activeHeartbeats (heartbeatFailed sessionId rc s) = []"
proof -
  let ?s0 = "emit Err [Txt ''Heartbeat failed:'', Obj] s"
  let ?s1 = "(clearHeartbeat ?s0)\<lparr>isConnected := False\<rparr>"
  have ok0: "timers_ok ?s0" using assms by simp
  have ok1: "timers_ok ?s1" using ok0 by (simp add: timers_ok_clearHeartbeat)
  have "activeHeartbeats ?s1 = []"
    using activeHeartbeats_clearHeartbeat [OF ok0] by (simp add: activeHeartbeats_def)
  then show ?thesis
    by (simp add: heartbeatFailed_def activeHeartbeats_handleReconnection [OF ok1])
qed

lemma isConnected_handleReconnection [simp]:
  "isConnected (handleReconnection sessionId rc s) = isConnected s"
  by (simp add: handleReconnection_def setTimeout_def emit_def toast_def clearTimer_def Let_def)

lemma heartbeatIntervalRef_handleReconnection [simp]:
  "heartbeatIntervalRef (handleReconnection sessionId rc s) = heartbeatIntervalRef s"
  by (simp add: handleReconnection_def setTimeout_def emit_def toast_def clearTimer_def Let_def)

lemma retryCount_reconnectFire: "retryCount (reconnectFire sid rc s) = retryCount s + 1"
  by (simp add: reconnectFire_def Let_def split: option.splits)

lemma subscribed1_value:
  "subscribed1 =
     \<lparr>retryCount = 0, isConnected = True, channelRef = Some chan1, timeoutRef = None,
      heartbeatIntervalRef = Some 1, channels = [chan1],
      timers = [\<lparr>tid = 1, repeating = True, ms = 30000, cb = HeartbeatTick chan1\<rparr>],
      nextTimerId = 2, nextChannelId = 2, heartbeats = [], toasts = [],
      console = [(Log, [Txt ''Setting up subscription for session:'', Txt ''s1'']),
                 (Log, [Txt ''Subscription status:'', Txt ''SUBSCRIBED'']),
                 (Log, [Txt ''Successfully subscribed to real-time updates''])]\<rparr>"
  by (simp add: subscribed1_def chan1_def chan_def init_def setupSubscription_def openChannel_def
        emit_def onStatus_def startHeartbeat_def setInterval_def clearHeartbeat_def
        truthy_num_def Let_def)

lemma closed1_step: "step (Status chan1 CLOSED) subscribed1 = closed1"
  by (simp add: closed1_def subscribed1_def)

lemma closed1_value:
  "closed1 =
     \<lparr>retryCount = 0, isConnected = False, channelRef = Some chan1, timeoutRef = Some 2,
      heartbeatIntervalRef = Some 1, channels = [chan1],
      timers = [\<lparr>tid = 1, repeating = True, ms = 30000, cb = HeartbeatTick chan1\<rparr>,
                \<lparr>tid = 2, repeating = False, ms = 1000, cb = ReconnectFire ''s1'' 0\<rparr>],
      nextTimerId = 3, nextChannelId = 2, heartbeats = [], toasts = [],
      console = [(Log, [Txt ''Setting up subscription for session:'', Txt ''s1'']),
                 (Log, [Txt ''Subscription status:'', Txt ''SUBSCRIBED'']),
                 (Log, [Txt ''Successfully subscribed to real-time updates'']),
                 (Log, [Txt ''Subscription status:'', Txt ''CLOSED'']),
                 (Log, [Txt ''Subscription closed, attempting to reconnect...'']),
                 (Log, [Txt ''Attempting reconnection in '', Num 1000, Txt ''ms (attempt '',
                        Num 1, Txt '')''])]\<rparr>"
  unfolding closed1_step [symmetric]
  by (simp add: subscribed1_value chan1_def chan_def emit_def onStatus_def truthy_num_def
        handleReconnection_def truthy_str_def MAX_RETRY_ATTEMPTS_def INITIAL_RETRY_DELAY_def
        MAX_RETRY_DELAY_def setTimeout_def Let_def)

lemma fire_scheduled:
  assumes "timers_ok s" "truthy_str sessionId" "rc < MAX_RETRY_ATTEMPTS"
  shows "fire (nextTimerId s) closed (handleReconnection sessionId rc s) =
           reconnectFire (the sessionId) rc
             (clearTimer (nextTimerId s) (handleReconnection sessionId rc s))"
proof -
  let ?new = "\<lparr>tid = nextTimerId s, repeating = False,
                ms = min (INITIAL_RETRY_DELAY * 2 ^ rc) MAX_RETRY_DELAY,
                cb = ReconnectFire (the sessionId) rc\<rparr>"
  let ?old = "if truthy_num (timeoutRef s)
              then filter (\<lambda>t. tid t \<noteq> the (timeoutRef s)) (timers s) else timers s"
  have old: "\<forall>t \<in> set ?old. tid t \<noteq> nextTimerId s"
    using assms(1) by (auto simp: timers_ok_def)
  have "find (\<lambda>t. tid t = nextTimerId s) (?old @ [?new]) = Some ?new"
    by (rule find_appended) (use old in simp_all)
  then have "find (\<lambda>t. tid t = nextTimerId s) (timers (handleReconnection sessionId rc s))
               = Some ?new"
    by (simp only: handleReconnection_schedule(1) [OF assms(2,3)])
  then show ?thesis by (simp add: fire_def)
qed

lemma closed_schedules:
  assumes "toasts s = []" "timeoutRef s = r" "timers s = ts" "nextTimerId s = n"
  shows "toasts (onStatus ch (Some ''s1'') 0 CLOSED s) = []"
    and "timers (onStatus ch (Some ''s1'') 0 CLOSED s) =
           (if truthy_num r then filter (\<lambda>t. tid t \<noteq> the r) ts else ts)
           @ [\<lparr>tid = n, repeating = False, ms = 1000, cb = ReconnectFire ''s1'' 0\<rparr>]"
    and "timeoutRef (onStatus ch (Some ''s1'') 0 CLOSED s) = Some n"
    and "nextTimerId (onStatus ch (Some ''s1'') 0 CLOSED s) = Suc n"
    and "heartbeatIntervalRef (onStatus ch (Some ''s1'') 0 CLOSED s) = heartbeatIntervalRef s"
  using assms
  by (simp_all add: onStatus_def Let_def handleReconnection_def truthy_str_def
        MAX_RETRY_ATTEMPTS_def INITIAL_RETRY_DELAY_def MAX_RETRY_DELAY_def setTimeout_def
        clearTimer_def)

lemma retrying_start:
  "retrying 0 (run [Setup (Some ''s1'') 0 ''s1'', Status chan1 CLOSED] init)"
  by (simp add: retrying_def chan1_def chan_def init_def setupSubscription_def openChannel_def
        closed_schedules truthy_num_def Let_def)

lemma retrying_fire:
  assumes "retrying k s"
  shows "retrying (Suc k) (step (Fire (Suc k) closed) s)"
proof -
  let ?s0 = "clearTimer (Suc k) s"
  let ?s1 = "?s0\<lparr>retryCount := retryCount ?s0 + 1\<rparr>"
  let ?s2 = "(removeChannel (chan (Suc k))
               (emit Log [Txt ''Removing existing channel before reconnection''] ?s1))
             \<lparr>channelRef := None\<rparr>"
  have f: "fire (Suc k) closed s = snd (setupSubscription (Some ''s1'') 0 ''s1'' ?s2)"
    using assms by (simp add: retrying_def fire_def reconnectFire_def Let_def clearTimer_def)
  have held: "heldSession (chan (Suc k)) = Some ''s1''" "heldRetry (chan (Suc k)) = 0"
    "chanId (chan (Suc k)) = Suc k"
    by (simp_all add: chan_def)
  have s2: "retryCount ?s2 = Suc k" "toasts ?s2 = []" "heartbeatIntervalRef ?s2 = None"
    "channelRef ?s2 = None" "channels ?s2 = []" "nextChannelId ?s2 = Suc (Suc k)"
    "timeoutRef ?s2 = Some (Suc (Suc k))"
    "timers ?s2 = [\<lparr>tid = Suc (Suc k), repeating = False, ms = 1000, cb = ReconnectFire ''s1'' 0\<rparr>]"
    "nextTimerId ?s2 = Suc (Suc (Suc k))"
    using assms
    by (simp_all add: retrying_def removeChannel_def held clearTimer_def truthy_num_def
          closed_schedules [where r = "Some (Suc k)" and ts = "[]" and n = "Suc (Suc k)"])
  show ?thesis
    unfolding step.simps f
    using s2
    by (simp add: retrying_def setupSubscription_def openChannel_def Let_def chan_def)
qed

lemma retrying_retried2: "retrying 2 retried2"
proof -
  have "retried2 = step (Fire 2 False) (step (Fire 1 False)
          (run [Setup (Some ''s1'') 0 ''s1'', Status chan1 CLOSED] init))"
    by (simp add: retried2_def)
  then show ?thesis
    using retrying_fire [OF retrying_fire [OF retrying_start], of False False]
    by (simp add: numeral_2_eq_2)
qed

lemma retrying_retried5: "retrying 5 retried5"
proof -
  have "retried5 = step (Fire (Suc 4) False) (step (Fire (Suc 3) False)
          (step (Fire (Suc 2) False) retried2))"
    by (simp add: retried5_def eval_nat_numeral)
  then show ?thesis
    using retrying_fire [OF retrying_fire [OF retrying_fire [OF retrying_retried2]],
            of False False False]
    by (simp add: eval_nat_numeral)
qed

lemma subscribedN_value:
  "subscribedN =
     \<lparr>retryCount = 0, isConnected = True, channelRef = Some chanN, timeoutRef = None,
      heartbeatIntervalRef = Some 1, channels = [chanN],
      timers = [\<lparr>tid = 1, repeating = True, ms = 30000, cb = HeartbeatTick chanN\<rparr>],
      nextTimerId = 2, nextChannelId = 2, heartbeats = [], toasts = [],
      console = [(Log, [Txt ''Setting up subscription for session:'', Txt ''s1'']),
                 (Log, [Txt ''Subscription status:'', Txt ''SUBSCRIBED'']),
                 (Log, [Txt ''Successfully subscribed to real-time updates''])]\<rparr>"
  by (simp add: subscribedN_def chanN_def init_def setupSubscription_def openChannel_def
        emit_def onStatus_def startHeartbeat_def setInterval_def clearHeartbeat_def
        truthy_num_def Let_def)

lemma unmounted1_value:
  "cleanup subscribed1 =
     \<lparr>retryCount = 0, isConnected = False, channelRef = None, timeoutRef = Some 2,
      heartbeatIntervalRef = None, channels = [],
      timers = [\<lparr>tid = 2, repeating = False, ms = 1000, cb = ReconnectFire ''s1'' 0\<rparr>],
      nextTimerId = 3, nextChannelId = 2, heartbeats = [], toasts = [],
      console = [(Log, [Txt ''Setting up subscription for session:'', Txt ''s1'']),
                 (Log, [Txt ''Subscription status:'', Txt ''SUBSCRIBED'']),
                 (Log, [Txt ''Successfully subscribed to real-time updates'']),
                 (Log, [Txt ''Cleaning up subscription'']),
                 (Log, [Txt ''Subscription status:'', Txt ''CLOSED'']),
                 (Log, [Txt ''Subscription closed, attempting to reconnect...'']),
                 (Log, [Txt ''Attempting reconnection in '', Num 1000, Txt ''ms (attempt '',
                        Num 1, Txt '')''])]\<rparr>"
  by (simp add: subscribed1_value cleanup_def Let_def emit_def truthy_num_def clearHeartbeat_def
        clearTimer_def removeChannel_def chan1_def chan_def onStatus_def handleReconnection_def
        truthy_str_def MAX_RETRY_ATTEMPTS_def INITIAL_RETRY_DELAY_def MAX_RETRY_DELAY_def
        setTimeout_def)

lemma reconnected1_value:
  "reconnect (Some ''s1'') 0 subscribed1 =
     \<lparr>retryCount = 0, isConnected = False, channelRef = Some (chan 2), timeoutRef = Some 2,
      heartbeatIntervalRef = None, channels = [chan 2],
      timers = [\<lparr>tid = 2, repeating = False, ms = 1000, cb = ReconnectFire ''s1'' 0\<rparr>],
      nextTimerId = 3, nextChannelId = 3, heartbeats = [],
      toasts = [ToastSuccess ''Attempting to reconnect...''
                  (Some ''Please wait while we restore your connection.'')],
      console = [(Log, [Txt ''Setting up subscription for session:'', Txt ''s1'']),
                 (Log, [Txt ''Subscription status:'', Txt ''SUBSCRIBED'']),
                 (Log, [Txt ''Successfully subscribed to real-time updates'']),
                 (Log, [Txt ''Manual reconnection requested'']),
                 (Log, [Txt ''Subscription status:'', Txt ''CLOSED'']),
                 (Log, [Txt ''Subscription closed, attempting to reconnect...'']),
                 (Log, [Txt ''Attempting reconnection in '', Num 1000, Txt ''ms (attempt '',
                        Num 1, Txt '')'']),
                 (Log, [Txt ''Setting up subscription for session:'', Txt ''s1''])]\<rparr>"
  by (simp add: subscribed1_value reconnect_def Let_def emit_def toast_def truthy_num_def
        clearHeartbeat_def clearTimer_def removeChannel_def chan1_def chan_def onStatus_def
        handleReconnection_def truthy_str_def MAX_RETRY_ATTEMPTS_def INITIAL_RETRY_DELAY_def
        MAX_RETRY_DELAY_def setTimeout_def setupSubscription_def openChannel_def)

section \<open>The claims\<close>

subsection \<open>C1: the backoff delay and the retry counter\<close>

text \<open>
  C1 (amended). For every automatic reconnection scheduled while the retry counter is N
  with N < 5 and a session identifier is known, by a handler whose closure holds that
  N: the timer handed to the window has the delay min(1000 * 2^N, 30000) milliseconds,
  it is the only pending reconnection and \<open>timeoutRef\<close> names it. Right after
  scheduling the retry counter is still N; it is N + 1 once the scheduled timer has
  fired. (Shown from every state the hook can reach. A handler whose closure holds an
  older counter is not covered.)
\<close>

theorem C1_backoff_delay:
  assumes "truthy_str sessionId" and "retryCount (run es init) = N" and "N < 5"
  shows "pendingReconnects (handleReconnection sessionId N (run es init)) =
           [\<lparr>tid = nextTimerId (run es init), repeating = False,
             ms = min (1000 * 2 ^ N) 30000, cb = ReconnectFire (the sessionId) N\<rparr>]
       \<and> timeoutRef (handleReconnection sessionId N (run es init)) =
           Some (nextTimerId (run es init))
       \<and> retryCount (handleReconnection sessionId N (run es init)) = N
       \<and> retryCount (step (Fire (nextTimerId (run es init)) closed)
                        (handleReconnection sessionId N (run es init))) = N + 1"
proof -
  have lt: "N < MAX_RETRY_ATTEMPTS" using assms(3) by (simp add: MAX_RETRY_ATTEMPTS_def)
  have ok: "timers_ok (run es init)"
    using manager_ok_reachable [of es] by (simp add: manager_ok_def)
  have "retryCount (fire (nextTimerId (run es init)) closed
                      (handleReconnection sessionId N (run es init))) = N + 1"
    using assms(2)
    by (simp add: fire_scheduled [OF ok assms(1) lt] retryCount_reconnectFire clearTimer_def)
  then show ?thesis
    using pendingReconnects_handleReconnection [OF ok assms(1) lt]
      handleReconnection_schedule(2) [OF assms(1) lt, of "run es init"] assms(2)
    by (simp add: INITIAL_RETRY_DELAY_def MAX_RETRY_DELAY_def)
qed

text \<open>After two automatic rounds the retry counter is 2; a handler that holds 2
  schedules timer 4 with 4000 ms, the counter stays 2 and is 3 once timer 4 has fired.\<close>

theorem C1_witness:
  "truthy_str (Some ''s1'') \<and> retryCount retried2 = 2 \<and> (2::nat) < 5
   \<and> pendingReconnects (handleReconnection (Some ''s1'') 2 retried2) =
        [\<lparr>tid = 4, repeating = False, ms = 4000, cb = ReconnectFire ''s1'' 2\<rparr>]
   \<and> retryCount (handleReconnection (Some ''s1'') 2 retried2) = 2
   \<and> retryCount (step (Fire 4 False) (handleReconnection (Some ''s1'') 2 retried2)) = 3"
proof -
  have h: "truthy_str (Some ''s1'')" "(2::nat) < 5" by (simp_all add: truthy_str_def)
  have v: "retryCount retried2 = 2" "nextTimerId retried2 = 4"
    using retrying_retried2 by (simp_all add: retrying_def eval_nat_numeral)
  show ?thesis
    using h v
      C1_backoff_delay [OF h(1) _ h(2),
        of "[Setup (Some ''s1'') 0 ''s1'', Status chan1 CLOSED, Fire 1 False, Fire 2 False]" False]
    unfolding retried2_def [symmetric] by simp
qed

text \<open>
  C1 as stated fails. At the first render, with the retry counter 0 and session \<open>s1\<close>,
  the scheduled delay is the stated one, but the retry counter right after scheduling is
  0, not 1. And after two automatic rounds the retry counter is 2, while the listener of
  the channel then held still holds 0: on its \<open>CLOSED\<close> the scheduled delay is not
  min(1000 * 2^2, 30000).
\<close>

theorem C1_counterexample:
  "truthy_str (Some ''s1'') \<and> (0::nat) < 5 \<and> retryCount init = 0
   \<and> map ms (timers (handleReconnection (Some ''s1'') 0 init)) = [min (1000 * 2 ^ 0) 30000]
   \<and> retryCount (handleReconnection (Some ''s1'') 0 init) \<noteq> 0 + 1
   \<and> retryCount retried2 = 2 \<and> channelRef retried2 = Some (chan 3)
   \<and> map ms (pendingReconnects (step (Status (chan 3) CLOSED) retried2)) \<noteq> [min (1000 * 2 ^ 2) 30000]"
proof -
  have a: "truthy_str (Some ''s1'') \<and> (0::nat) < 5 \<and> retryCount init = 0
   \<and> map ms (timers (handleReconnection (Some ''s1'') 0 init)) = [min (1000 * 2 ^ 0) 30000]
   \<and> retryCount (handleReconnection (Some ''s1'') 0 init) \<noteq> 0 + 1"
    by (simp add: handleReconnection_def truthy_str_def truthy_num_def init_def emit_def
        setTimeout_def MAX_RETRY_ATTEMPTS_def INITIAL_RETRY_DELAY_def MAX_RETRY_DELAY_def
        Let_def)
  have r: "retryCount retried2 = 2" "toasts retried2 = []" "channelRef retried2 = Some (chan 3)"
    "timeoutRef retried2 = Some 3" "nextTimerId retried2 = 4"
    "timers retried2 = [\<lparr>tid = 3, repeating = False, ms = 1000, cb = ReconnectFire ''s1'' 0\<rparr>]"
    using retrying_retried2 by (simp_all add: retrying_def eval_nat_numeral)
  have h: "heldSession (chan 3) = Some ''s1''" "heldRetry (chan 3) = 0"
    by (simp_all add: chan_def)
  have "map ms (pendingReconnects (step (Status (chan 3) CLOSED) retried2)) = [1000]"
    using r
    by (simp add: pendingReconnects_def h truthy_num_def
          closed_schedules [where r = "Some 3" and n = 4
            and ts = "[\<lparr>tid = 3, repeating = False, ms = 1000, cb = ReconnectFire ''s1'' 0\<rparr>]"])
  with a r show ?thesis by simp
qed

subsection \<open>C2: the heartbeat probe\<close>

text \<open>
  C2 (amended). For every heartbeat tick during which the channel reports its state as
  closed, the heartbeat timer is cancelled at once and nothing else happens: the pending
  reconnection, \<open>timeoutRef\<close>, the connected flag, the retry counter and the toasts
  are as before, and no timer is created. For every heartbeat send whose promise is
  rejected, the heartbeat timer is cancelled at once, the connected flag is set to false
  and the reconnection handling runs, which schedules a reconnection when a session
  identifier is known and the retry counter the handler holds is below 5. (What concerns
  the window's timers is shown from every state the hook can reach. A send whose promise
  is resolved with an error value is not covered.)
\<close>

theorem C2_heartbeat_probe:
  "activeHeartbeats (heartbeatTick ch True (run es init)) = []
   \<and> pendingReconnects (heartbeatTick ch True (run es init)) = pendingReconnects (run es init)
   \<and> isConnected (heartbeatTick ch True s) = isConnected s
   \<and> timeoutRef (heartbeatTick ch True s) = timeoutRef s
   \<and> nextTimerId (heartbeatTick ch True s) = nextTimerId s
   \<and> retryCount (heartbeatTick ch True s) = retryCount s
   \<and> toasts (heartbeatTick ch True s) = toasts s
   \<and> activeHeartbeats (heartbeatFailed sessionId rc (run es init)) = []
   \<and> \<not> isConnected (heartbeatFailed sessionId rc s)
   \<and> (truthy_str sessionId \<and> rc < 5 \<longrightarrow>
        pendingReconnects (heartbeatFailed sessionId rc (run es init)) =
          [\<lparr>tid = nextTimerId (run es init), repeating = False,
            ms = min (1000 * 2 ^ rc) 30000, cb = ReconnectFire (the sessionId) rc\<rparr>])"
proof -
  have ok: "timers_ok (run es init)"
    using manager_ok_reachable [of es] by (simp add: manager_ok_def)
  show ?thesis
    using activeHeartbeats_clearHeartbeat [OF ok] pendingReconnects_clearHeartbeat [OF ok]
      heartbeatFailed_no_heartbeat [OF ok, of sessionId rc]
      heartbeatFailed_schedule [OF ok, of sessionId rc]
    by (simp add: heartbeatTick_def heartbeatFailed_def MAX_RETRY_ATTEMPTS_def
          INITIAL_RETRY_DELAY_def MAX_RETRY_DELAY_def)
qed

text \<open>From the subscribed state, whose heartbeat is timer 1.\<close>

theorem C2_witness:
  "activeHeartbeats subscribed1 = [\<lparr>tid = 1, repeating = True, ms = 30000, cb = HeartbeatTick chan1\<rparr>]
   \<and> activeHeartbeats (heartbeatTick chan1 True subscribed1) = []
   \<and> isConnected (heartbeatTick chan1 True subscribed1) = isConnected subscribed1
   \<and> truthy_str (Some ''s1'') \<and> (0::nat) < 5
   \<and> activeHeartbeats (heartbeatFailed (Some ''s1'') 0 subscribed1) = []
   \<and> \<not> isConnected (heartbeatFailed (Some ''s1'') 0 subscribed1)
   \<and> pendingReconnects (heartbeatFailed (Some ''s1'') 0 subscribed1) =
        [\<lparr>tid = 2, repeating = False, ms = 1000, cb = ReconnectFire ''s1'' 0\<rparr>]"
proof -
  have h: "truthy_str (Some ''s1'')" "(0::nat) < 5" by (simp_all add: truthy_str_def)
  have v: "activeHeartbeats subscribed1 =
             [\<lparr>tid = 1, repeating = True, ms = 30000, cb = HeartbeatTick chan1\<rparr>]"
    "nextTimerId subscribed1 = 2"
    by (simp_all add: subscribed1_value activeHeartbeats_def)
  show ?thesis
    using h v C2_heartbeat_probe [of chan1 "[Setup (Some ''s1'') 0 ''s1'', Status chan1 SUBSCRIBED]"
                 subscribed1 "Some ''s1''" 0]
    unfolding subscribed1_def [symmetric] by simp
qed

text \<open>
  C2 as stated fails: in the subscribed state the heartbeat (timer 1) ticks while the
  channel reports closed; afterwards the connected flag is still true and the window
  holds no timer at all, so no reconnection was scheduled. A send that fails by resolving
  with \<open>error\<close> changes nothing. And a rejected send handled by a listener that holds
  no session identifier schedules no reconnection.
\<close>

theorem C2_counterexample:
  "activeHeartbeats subscribed1 = [\<lparr>tid = 1, repeating = True, ms = 30000, cb = HeartbeatTick chan1\<rparr>]
   \<and> isConnected (step (Fire 1 True) subscribed1)
   \<and> timers (step (Fire 1 True) subscribed1) = []
   \<and> timeoutRef (step (Fire 1 True) subscribed1) = None
   \<and> step (SendSettled chan1 (Resolved ''error'')) subscribed1 = subscribed1
   \<and> timers (step (SendSettled chanN Rejected) subscribedN) = []"
  by (simp add: subscribed1_value subscribedN_value activeHeartbeats_def fire_def
        heartbeatTick_def clearHeartbeat_def clearTimer_def truthy_num_def heartbeatFailed_def
        handleReconnection_def truthy_str_def emit_def toast_def chanN_def)

subsection \<open>C3: the \<open>CLOSED\<close> status\<close>

text \<open>
  C3 (amended). For every delivery of a \<open>CLOSED\<close> status to the callback of
  \<open>subscribe\<close>, the connected flag is set to false and the reconnection handling runs,
  which schedules a reconnection when a session identifier is known and the retry
  counter the handler holds is below 5. The heartbeat timer is not cleared: the window's
  heartbeat timers and \<open>heartbeatIntervalRef\<close> are as before. (What concerns the
  window's timers is shown from every state the hook can reach.)
\<close>

theorem C3_closed_status:
  "\<not> isConnected (onStatus ch sessionId rc CLOSED s)
   \<and> heartbeatIntervalRef (onStatus ch sessionId rc CLOSED s) = heartbeatIntervalRef s
   \<and> activeHeartbeats (onStatus ch sessionId rc CLOSED (run es init)) =
       activeHeartbeats (run es init)
   \<and> (truthy_str sessionId \<and> rc < 5 \<longrightarrow>
        pendingReconnects (onStatus ch sessionId rc CLOSED (run es init)) =
          [\<lparr>tid = nextTimerId (run es init), repeating = False,
            ms = min (1000 * 2 ^ rc) 30000, cb = ReconnectFire (the sessionId) rc\<rparr>])"
proof -
  let ?s1 = "(emit Log [Txt ''Subscription closed, attempting to reconnect...'']
               (emit Log [Txt ''Subscription status:'', Txt ''CLOSED''] (run es init)))\<lparr>isConnected := False\<rparr>"
  have ok: "timers_ok ?s1"
    using manager_ok_reachable [of es] by (simp add: manager_ok_def)
  show ?thesis
    using activeHeartbeats_handleReconnection [OF ok, of sessionId rc]
      pendingReconnects_handleReconnection [OF ok, of sessionId rc]
    by (simp add: onStatus_def Let_def activeHeartbeats_def MAX_RETRY_ATTEMPTS_def
          INITIAL_RETRY_DELAY_def MAX_RETRY_DELAY_def)
qed

text \<open>From the subscribed state: the flag falls, the reconnection of 1000 ms is
  scheduled, the heartbeat (timer 1) is still running.\<close>

theorem C3_witness:
  "truthy_str (Some ''s1'') \<and> (0::nat) < 5 \<and> isConnected subscribed1
   \<and> \<not> isConnected (onStatus chan1 (Some ''s1'') 0 CLOSED subscribed1)
   \<and> activeHeartbeats (onStatus chan1 (Some ''s1'') 0 CLOSED subscribed1) =
        [\<lparr>tid = 1, repeating = True, ms = 30000, cb = HeartbeatTick chan1\<rparr>]
   \<and> pendingReconnects (onStatus chan1 (Some ''s1'') 0 CLOSED subscribed1) =
        [\<lparr>tid = 2, repeating = False, ms = 1000, cb = ReconnectFire ''s1'' 0\<rparr>]"
proof -
  have h: "truthy_str (Some ''s1'')" "(0::nat) < 5" by (simp_all add: truthy_str_def)
  have v: "activeHeartbeats subscribed1 =
             [\<lparr>tid = 1, repeating = True, ms = 30000, cb = HeartbeatTick chan1\<rparr>]"
    "nextTimerId subscribed1 = 2" "isConnected subscribed1"
    by (simp_all add: subscribed1_value activeHeartbeats_def)
  show ?thesis
    using h v C3_closed_status [of chan1 "Some ''s1''" 0 subscribed1
                 "[Setup (Some ''s1'') 0 ''s1'', Status chan1 SUBSCRIBED]"]
    unfolding subscribed1_def [symmetric] by simp
qed

text \<open>
  C3 as stated fails: in the subscribed state, after the \<open>CLOSED\<close> status the heartbeat
  timer is still active and \<open>heartbeatIntervalRef\<close> still names it. And a \<open>CLOSED\<close>
  status handled by a listener that holds no session identifier schedules no
  reconnection.
\<close>

theorem C3_counterexample:
  "isConnected subscribed1
   \<and> activeHeartbeats subscribed1 = [\<lparr>tid = 1, repeating = True, ms = 30000, cb = HeartbeatTick chan1\<rparr>]
   \<and> activeHeartbeats (step (Status chan1 CLOSED) subscribed1) \<noteq> []
   \<and> heartbeatIntervalRef (step (Status chan1 CLOSED) subscribed1) = Some 1
   \<and> pendingReconnects (step (Status chanN CLOSED) subscribedN) = []"
  unfolding closed1_step
  by (simp add: closed1_value activeHeartbeats_def pendingReconnects_def subscribed1_value
        subscribedN_value chanN_def onStatus_def handleReconnection_def truthy_str_def
        emit_def toast_def)

subsection \<open>C4: retry exhaustion\<close>

text \<open>
  C4 on the automatic path of the code. The first channel reports \<open>CLOSED\<close> and five
  scheduled reconnections fire in a row with no \<open>SUBSCRIBED\<close> in between. The retry
  counter is then 5, no toast was ever emitted and a further reconnection is pending. The
  channel then held reports \<open>CLOSED\<close>: its listener still holds the retry counter 0 of
  the first render, so it schedules one more reconnection of 1000 ms and emits no
  terminal notification, where C4 has no reconnection scheduled and the notification
  emitted.
\<close>

theorem C4_exhaustion_not_reached:
  "retryCount retried5 = 5 \<and> toasts retried5 = []
   \<and> channelRef retried5 = Some (chan 6)
   \<and> pendingReconnects retried5 =
        [\<lparr>tid = 6, repeating = False, ms = 1000, cb = ReconnectFire ''s1'' 0\<rparr>]
   \<and> toasts (step (Status (chan 6) CLOSED) retried5) = []
   \<and> pendingReconnects (step (Status (chan 6) CLOSED) retried5) =
        [\<lparr>tid = 7, repeating = False, ms = 1000, cb = ReconnectFire ''s1'' 0\<rparr>]"
proof -
  have r: "retryCount retried5 = 5" "toasts retried5 = []" "channelRef retried5 = Some (chan 6)"
    "timeoutRef retried5 = Some 6" "nextTimerId retried5 = 7"
    "timers retried5 = [\<lparr>tid = 6, repeating = False, ms = 1000, cb = ReconnectFire ''s1'' 0\<rparr>]"
    using retrying_retried5 by (simp_all add: retrying_def eval_nat_numeral)
  have h: "heldSession (chan 6) = Some ''s1''" "heldRetry (chan 6) = 0"
    by (simp_all add: chan_def)
  show ?thesis
    using r
    by (simp add: pendingReconnects_def h truthy_num_def
          closed_schedules [where r = "Some 6" and n = 7
            and ts = "[\<lparr>tid = 6, repeating = False, ms = 1000, cb = ReconnectFire ''s1'' 0\<rparr>]"])
qed

subsection \<open>C5: one channel handle, one heartbeat\<close>

text \<open>
  C5. After every sequence of setup, reconnect, unmount, timer, insert, error and status
  events, the client holds at most one channel of the manager and the window at most one
  heartbeat timer of it. Setting up a subscription in such a state leaves exactly the new
  channel registered (any earlier one is removed first), and starting a heartbeat leaves
  exactly one heartbeat timer (any earlier one is cleared first).
\<close>

theorem C5_one_handle_one_heartbeat:
  "length (channels (run es init)) \<le> 1
   \<and> length (activeHeartbeats (run es init)) \<le> 1
   \<and> channels (snd (setupSubscription sessionId rc sid (run es init))) =
         [\<lparr>chanId = nextChannelId (run es init), topic = ''chat_messages_'' @ sid,
           insertFilter = ''session_id=eq.'' @ sid, heldSession = sessionId, heldRetry = rc\<rparr>]
   \<and> length (activeHeartbeats (startHeartbeat ch (run es init))) = 1"
proof -
  have mok: "manager_ok (run es init)" by (rule manager_ok_reachable)
  then have ok: "timers_ok (run es init)" "channels_ok (run es init)"
    by (simp_all add: manager_ok_def)
  have "activeHeartbeats (startHeartbeat ch (run es init)) =
                   [\<lparr>tid = nextTimerId (run es init), repeating = True, ms = 30000,
                     cb = HeartbeatTick ch\<rparr>]"
    using activeHeartbeats_clearHeartbeat [OF ok(1)]
    by (simp add: startHeartbeat_def setInterval_def activeHeartbeats_def split: prod.splits)
  then show ?thesis
    using channels_ok_one_channel [OF ok(2)] timers_ok_one_heartbeat [OF ok(1)]
      setupSubscription_channels [OF mok, of sessionId rc sid]
    by simp
qed

text \<open>With a channel registered and a heartbeat running: a setup for another session
  leaves only the new channel, a new heartbeat leaves only itself.\<close>

theorem C5_witness:
  "channels closed1 = [chan1]
   \<and> length (channels closed1) \<le> 1
   \<and> length (activeHeartbeats closed1) \<le> 1
   \<and> channels (snd (setupSubscription (Some ''s2'') 0 ''s2'' closed1)) =
         [\<lparr>chanId = nextChannelId closed1, topic = ''chat_messages_'' @ ''s2'',
           insertFilter = ''session_id=eq.'' @ ''s2'', heldSession = Some ''s2'', heldRetry = 0\<rparr>]
   \<and> length (activeHeartbeats (startHeartbeat chan1 closed1)) = 1"
proof -
  have v: "channels closed1 = [chan1]" by (simp add: closed1_value)
  show ?thesis
    using v C5_one_handle_one_heartbeat
            [of "[Setup (Some ''s1'') 0 ''s1'', Status chan1 SUBSCRIBED, Status chan1 CLOSED]"
                "Some ''s2''" 0 "''s2''" chan1]
    unfolding closed1_def [symmetric] by blast
qed

subsection \<open>C6: manual reconnect\<close>

text \<open>
  C6 on the code, for \<open>reconnect\<close> called in the subscribed state. The retry counter is
  0 and the connected flag false afterwards, the old channel is gone and one new channel
  (channel 2) was set up. But removing the old channel ran its \<open>CLOSED\<close> listener,
  which scheduled a reconnection of 1000 ms that \<open>reconnect\<close> does not cancel: when it
  fires, a second setup runs (channel 3) and removes the channel \<open>reconnect\<close> had set
  up, where C6 has exactly one new setup.
\<close>

theorem C6_second_setup:
  "retryCount (step (Reconnect (Some ''s1'') 0) subscribed1) = 0
   \<and> \<not> isConnected (step (Reconnect (Some ''s1'') 0) subscribed1)
   \<and> channels (step (Reconnect (Some ''s1'') 0) subscribed1) = [chan 2]
   \<and> nextChannelId subscribed1 = 2
   \<and> nextChannelId (step (Reconnect (Some ''s1'') 0) subscribed1) = 3
   \<and> pendingReconnects (step (Reconnect (Some ''s1'') 0) subscribed1) =
        [\<lparr>tid = 2, repeating = False, ms = 1000, cb = ReconnectFire ''s1'' 0\<rparr>]
   \<and> nextChannelId (run [Reconnect (Some ''s1'') 0, Fire 2 False] subscribed1) = 4
   \<and> channels (run [Reconnect (Some ''s1'') 0, Fire 2 False] subscribed1) = [chan 3]"
proof -
  have "nextChannelId (fire 2 False (reconnect (Some ''s1'') 0 subscribed1)) = 4
      \<and> channels (fire 2 False (reconnect (Some ''s1'') 0 subscribed1)) = [chan 3]"
    unfolding reconnected1_value
    by (simp add: fire_def reconnectFire_def clearTimer_def setupSubscription_def
          openChannel_def emit_def Let_def chan_def removeChannel_def)
  moreover have "nextChannelId subscribed1 = 2" by (simp add: subscribed1_value)
  ultimately show ?thesis
    by (simp add: reconnected1_value pendingReconnects_def)
qed

subsection \<open>C7: one pending reconnection\<close>

text \<open>
  C7. After every sequence of events the window holds at most one pending reconnection
  timer of the manager; and a reconnection scheduled in such a state (session identifier
  known, captured retry counter below 5) leaves exactly the newly scheduled timer pending:
  the one pending before, if any, is cancelled first.
\<close>

theorem C7_one_pending_reconnect:
  "length (pendingReconnects (run es init)) \<le> 1
   \<and> (truthy_str sessionId \<and> rc < 5 \<longrightarrow>
        pendingReconnects (handleReconnection sessionId rc (run es init)) =
          [\<lparr>tid = nextTimerId (run es init), repeating = False,
            ms = min (1000 * 2 ^ rc) 30000, cb = ReconnectFire (the sessionId) rc\<rparr>])"
proof -
  have ok: "timers_ok (run es init)"
    using manager_ok_reachable [of es] by (simp add: manager_ok_def)
  then show ?thesis
    using pendingReconnects_handleReconnection [OF ok, of sessionId rc]
      timers_ok_one_reconnect [OF ok]
    by (simp add: MAX_RETRY_ATTEMPTS_def INITIAL_RETRY_DELAY_def MAX_RETRY_DELAY_def)
qed

text \<open>With the reconnection of 1000 ms pending (timer 2), scheduling at retry counter 1
  leaves only the new timer 3 of 2000 ms.\<close>

theorem C7_witness:
  "pendingReconnects closed1 = [\<lparr>tid = 2, repeating = False, ms = 1000, cb = ReconnectFire ''s1'' 0\<rparr>]
   \<and> truthy_str (Some ''s1'') \<and> (1::nat) < 5
   \<and> length (pendingReconnects closed1) \<le> 1
   \<and> pendingReconnects (handleReconnection (Some ''s1'') 1 closed1) =
        [\<lparr>tid = 3, repeating = False, ms = 2000, cb = ReconnectFire ''s1'' 1\<rparr>]"
proof -
  have v: "pendingReconnects closed1 =
             [\<lparr>tid = 2, repeating = False, ms = 1000, cb = ReconnectFire ''s1'' 0\<rparr>]"
    "nextTimerId closed1 = 3"
    by (simp_all add: closed1_value pendingReconnects_def)
  have h: "truthy_str (Some ''s1'') \<and> (1::nat) < 5" by (simp add: truthy_str_def)
  show ?thesis
    using v h C7_one_pending_reconnect
            [of "[Setup (Some ''s1'') 0 ''s1'', Status chan1 SUBSCRIBED, Status chan1 CLOSED]"
                "Some ''s1''" 1]
    unfolding closed1_def [symmetric] by simp
qed

subsection \<open>C8: disposal\<close>

text \<open>
  C8 on the code, for the cleanup run in the subscribed state. The cleanup clears the
  pending timeout and the heartbeat first and removes the channel last; removing the
  channel runs its \<open>CLOSED\<close> listener, which schedules a reconnection of 1000 ms that
  nothing clears. After disposal the window therefore holds timer 2, where C8 has no
  pending timer; when it fires, a channel is set up after disposal. A second cleanup
  clears that timer, so the teardown is not idempotent either.
\<close>

theorem C8_timer_survives_disposal:
  "timers (step Unmount subscribed1) =
     [\<lparr>tid = 2, repeating = False, ms = 1000, cb = ReconnectFire ''s1'' 0\<rparr>]
   \<and> channels (step Unmount subscribed1) = []
   \<and> channels (run [Unmount, Fire 2 False] subscribed1) = [chan 2]
   \<and> timers (run [Unmount, Unmount] subscribed1) = []"
proof -
  have "channels (fire 2 False (cleanup subscribed1)) = [chan 2]"
    unfolding unmounted1_value
    by (simp add: fire_def reconnectFire_def clearTimer_def setupSubscription_def
          openChannel_def emit_def Let_def chan_def)
  moreover have "timers (cleanup (cleanup subscribed1)) = []"
    unfolding unmounted1_value
    by (simp add: cleanup_def Let_def emit_def truthy_num_def clearHeartbeat_def clearTimer_def)
  ultimately show ?thesis by (simp add: unmounted1_value)
qed

subsection \<open>C9: an insert event with a role outside the allow-list\<close>

text \<open>
  C9. For every inbound message-insert event whose role is not one of \<open>user\<close>,
  \<open>assistant\<close>, \<open>owner\<close>, the listener logs the event and a warning and does nothing
  else: the connected flag, the retry counter, the channel handle, the timers and both
  timer refs are as before, and no toast is emitted. (The listener hands nothing to the UI
  layer on any role.)
\<close>

theorem C9_invalid_role_discarded:
  assumes "role \<notin> {''user'', ''assistant'', ''owner''}"
  shows "onInsert role s =
           s\<lparr>console := console s @
                [(Log, [Txt ''Real-time message received:'', Obj]),
                 (Warn, [Txt ''Invalid role in payload: '', Txt role])]\<rparr>
         \<and> isConnected (onInsert role s) = isConnected s
         \<and> retryCount (onInsert role s) = retryCount s
         \<and> channelRef (onInsert role s) = channelRef s
         \<and> channels (onInsert role s) = channels s
         \<and> timers (onInsert role s) = timers s
         \<and> timeoutRef (onInsert role s) = timeoutRef s
         \<and> heartbeatIntervalRef (onInsert role s) = heartbeatIntervalRef s
         \<and> toasts (onInsert role s) = toasts s"
  using assms by (simp add: onInsert_def emit_def Let_def)

text \<open>The scenario of the spec: an event with role \<open>system\<close>, at the first render.\<close>

theorem C9_witness:
  "''system'' \<notin> {''user'', ''assistant'', ''owner''}
   \<and> toasts (onInsert ''system'' init) = []
   \<and> timers (onInsert ''system'' init) = []
   \<and> isConnected (onInsert ''system'' init) = False
   \<and> console (onInsert ''system'' init) =
         [(Log, [Txt ''Real-time message received:'', Obj]),
          (Warn, [Txt ''Invalid role in payload: '', Txt ''system''])]"
proof -
  have h: "''system'' \<notin> {''user'', ''assistant'', ''owner''}" by simp
  show ?thesis
    using h C9_invalid_role_discarded [OF h, of init] by (simp add: init_def)
qed

subsection \<open>C10: reconnection handling without a session identifier\<close>

text \<open>
  C10. For every invocation of the automatic reconnection handling while no session
  identifier is known (null or empty), whatever the retry counter, the terminal
  notification asking for a page refresh is emitted and no timer is touched: the result
  is the very state the retry-exhaustion case produces, since both cases are one branch.
\<close>

theorem C10_missing_session_terminal:
  assumes "\<not> truthy_str sessionId"
  shows "toasts (handleReconnection sessionId rc s) =
           toasts s @ [ToastError ''Unable to maintain connection. Please refresh the page.'' None]
         \<and> timers (handleReconnection sessionId rc s) = timers s
         \<and> timeoutRef (handleReconnection sessionId rc s) = timeoutRef s
         \<and> handleReconnection sessionId rc s = handleReconnection (Some sid) MAX_RETRY_ATTEMPTS s"
  using assms by (simp add: handleReconnection_def)

text \<open>With no session identifier and the retry counter at 0, below the maximum.\<close>

theorem C10_witness:
  "\<not> truthy_str None \<and> (0::nat) < MAX_RETRY_ATTEMPTS
   \<and> toasts (handleReconnection None 0 init) =
         toasts init @ [ToastError ''Unable to maintain connection. Please refresh the page.'' None]
   \<and> timers (handleReconnection None 0 init) = timers init
   \<and> handleReconnection None 0 init = handleReconnection (Some ''s1'') MAX_RETRY_ATTEMPTS init"
proof -
  have h: "\<not> truthy_str None" by (simp add: truthy_str_def)
  have "(0::nat) < MAX_RETRY_ATTEMPTS" by (simp add: MAX_RETRY_ATTEMPTS_def)
  then show ?thesis
    using h C10_missing_session_terminal [OF h, of 0 init "''s1''"] by blast
qed

end
